theory Spec2Isabelle
  imports Main "HOL-Library.AList"
begin

section \<open>dui: a terminal client for DynamoDB Local\<close>

text \<open>
  A shallow embedding of the interaction core of dui (model.go: the Bubble Tea model and its
  Update function; ddb.go: the DynamoDB wrapper and the JSON codec with type hints).

  Conventions of the embedding.
  \<^item> A Go string is a \<open>string\<close> (a list of bytes); \<open>len\<close> is \<open>length\<close>.
  \<^item> A Go map is an association list. Go maps have no order: the order of the list is the
    order in which the runtime happens to iterate over the map, so a statement that holds
    for every list holds for every iteration order. \<open>m[k] = v\<close> is \<open>AList.update k v m\<close>.
  \<^item> A Go \<open>error\<close> is the text of its message (\<open>err.Error()\<close>), \<open>nil\<close> is \<open>None\<close>; the
    errors of the codec are a datatype of their own.
  \<^item> A Go \<open>int\<close> is an \<open>int\<close>; the code only counts list positions with it.
\<close>

subsection \<open>DynamoDB attribute values\<close>

text \<open>
  \<open>types.AttributeValue\<close> of the AWS SDK: one constructor for each member type the code
  switches over. Binary values are byte strings.
\<close>

datatype AttributeValue =
    MemberS string
  | MemberN string
  | MemberBOOL bool
  | MemberNULL bool
  | MemberL "AttributeValue list"
  | MemberM "(string \<times> AttributeValue) list"
  | MemberSS "string list"
  | MemberNS "string list"
  | MemberB string
  | MemberBS "string list"

type_synonym Item = "(string \<times> AttributeValue) list"

subsection \<open>The backend client and the paginated calls (ddb.go)\<close>

text \<open>
  The DynamoDB client is an external collaborator. It is modelled as a state machine the
  caller cannot look into: each call takes the backend's state and the request and gives
  the response (or the error text) and the next state. Whatever a call does to the backend
  (and the fact that it was made at all) is visible in that state only.
\<close>

record ListTablesInput =
  ExclusiveStartTableName :: "string option"

record ListTablesOutput =
  TableNames :: "string list"
  LastEvaluatedTableName :: "string option"

record ScanInput =
  scanTableName :: string
  scanIndexName :: "string option"
  scanExclusiveStartKey :: "Item option"

record ScanOutput =
  scanItems :: "Item list"
  scanLastEvaluatedKey :: "Item option"

record QueryInput =
  queryTableName :: string
  queryIndexName :: "string option"
  queryKeyConditionExpression :: string
  queryExpressionAttributeValues :: Item
  queryExclusiveStartKey :: "Item option"

record QueryOutput =
  queryItems :: "Item list"
  queryLastEvaluatedKey :: "Item option"

record 's Client =
  clientListTables :: "'s \<Rightarrow> ListTablesInput \<Rightarrow> (string + ListTablesOutput) \<times> 's"
  clientScan :: "'s \<Rightarrow> ScanInput \<Rightarrow> (string + ScanOutput) \<times> 's"
  clientQuery :: "'s \<Rightarrow> QueryInput \<Rightarrow> (string + QueryOutput) \<times> 's"
  clientGetItem :: "'s \<Rightarrow> string \<Rightarrow> Item \<Rightarrow> (string + Item option) \<times> 's"
  clientPutItem :: "'s \<Rightarrow> string \<Rightarrow> Item \<Rightarrow> string option \<times> 's"
  clientDeleteItem :: "'s \<Rightarrow> string \<Rightarrow> Item \<Rightarrow> string option \<times> 's"

text \<open>
  \<open>ListTables\<close>, \<open>Scan\<close> and \<open>Query\<close> are \<open>for { ... }\<close> loops that leave only when a
  response carries no continuation cursor or a call fails. A backend that always returns a
  cursor keeps them running, so each loop is a partial function: \<open>None\<close> is the run that
  never returns. The result is the aggregated list or the wrapped error, and the backend's
  state after the last call that was made.
\<close>

partial_function (option) ListTables_loop ::
  "'s Client \<Rightarrow> string list \<Rightarrow> string option \<Rightarrow> 's \<Rightarrow> ((string + string list) \<times> 's) option"
where
  "ListTables_loop db tables lastTable s =
     (case clientListTables db s \<lparr>ExclusiveStartTableName = lastTable\<rparr> of
        (Inl err, s') \<Rightarrow> Some (Inl (''failed to list tables: '' @ err), s')
      | (Inr out, s') \<Rightarrow>
          (let tables' = tables @ TableNames out in
           case LastEvaluatedTableName out of
             None \<Rightarrow> Some (Inr tables', s')
           | Some t \<Rightarrow> ListTables_loop db tables' (Some t) s'))"

definition ListTables :: "'s Client \<Rightarrow> 's \<Rightarrow> ((string + string list) \<times> 's) option" where
  "ListTables db s = ListTables_loop db [] None s"

partial_function (option) Scan_loop ::
  "'s Client \<Rightarrow> ScanInput \<Rightarrow> Item list \<Rightarrow> Item option \<Rightarrow> 's \<Rightarrow> ((string + Item list) \<times> 's) option"
where
  "Scan_loop db input items lastKey s =
     (case clientScan db s (input\<lparr>scanExclusiveStartKey := lastKey\<rparr>) of
        (Inl err, s') \<Rightarrow> Some (Inl (''scan failed: '' @ err), s')
      | (Inr out, s') \<Rightarrow>
          (let items' = items @ scanItems out in
           case scanLastEvaluatedKey out of
             None \<Rightarrow> Some (Inr items', s')
           | Some k \<Rightarrow> Scan_loop db input items' (Some k) s'))"

text \<open>The request \<open>Scan\<close> builds before its loop: the index name is set only when given.\<close>

definition scanRequest :: "string \<Rightarrow> string \<Rightarrow> ScanInput" where
  "scanRequest tableName indexName =
     \<lparr>scanTableName = tableName,
      scanIndexName = (if indexName \<noteq> '''' then Some indexName else None),
      scanExclusiveStartKey = None\<rparr>"

definition Scan :: "'s Client \<Rightarrow> string \<Rightarrow> string \<Rightarrow> 's \<Rightarrow> ((string + Item list) \<times> 's) option" where
  "Scan db tableName indexName s = Scan_loop db (scanRequest tableName indexName) [] None s"

partial_function (option) Query_loop ::
  "'s Client \<Rightarrow> QueryInput \<Rightarrow> Item list \<Rightarrow> Item option \<Rightarrow> 's \<Rightarrow> ((string + Item list) \<times> 's) option"
where
  "Query_loop db input items lastKey s =
     (case clientQuery db s (input\<lparr>queryExclusiveStartKey := lastKey\<rparr>) of
        (Inl err, s') \<Rightarrow> Some (Inl (''query failed: '' @ err), s')
      | (Inr out, s') \<Rightarrow>
          (let items' = items @ queryItems out in
           case queryLastEvaluatedKey out of
             None \<Rightarrow> Some (Inr items', s')
           | Some k \<Rightarrow> Query_loop db input items' (Some k) s'))"

definition queryRequest :: "string \<Rightarrow> string \<Rightarrow> string \<Rightarrow> Item \<Rightarrow> QueryInput" where
  "queryRequest tableName indexName keyCondition exprValues =
     \<lparr>queryTableName = tableName,
      queryIndexName = (if indexName \<noteq> '''' then Some indexName else None),
      queryKeyConditionExpression = keyCondition,
      queryExpressionAttributeValues = exprValues,
      queryExclusiveStartKey = None\<rparr>"

definition Query ::
  "'s Client \<Rightarrow> string \<Rightarrow> string \<Rightarrow> string \<Rightarrow> Item \<Rightarrow> 's \<Rightarrow> ((string + Item list) \<times> 's) option"
where
  "Query db tableName indexName keyCondition exprValues s =
     Query_loop db (queryRequest tableName indexName keyCondition exprValues) [] None s"

text \<open>
  What a backend serves, seen from one loop: \<open>served call s cur pages s'\<close> holds when the
  backend, in state \<open>s\<close> and called with cursor \<open>cur\<close>, answers with the first page and a
  cursor, called again with that cursor answers with the second page, and so on, the last
  page coming without a cursor and leaving the backend in state \<open>s'\<close>. \<open>call\<close> is one of
  the three client calls with its request filled in but for the cursor.
\<close>

fun served ::
  "('s \<Rightarrow> 'c option \<Rightarrow> (string + 'a list \<times> 'c option) \<times> 's) \<Rightarrow> 's \<Rightarrow> 'c option \<Rightarrow> 'a list list \<Rightarrow> 's \<Rightarrow> bool"
where
  "served call s cur [] sfin = False"
| "served call s cur [page] sfin = (call s cur = (Inr (page, None), sfin))"
| "served call s cur (page # nxt # pages) sfin =
     (case call s cur of
        (Inr (page', Some k), s') \<Rightarrow> page' = page \<and> served call s' (Some k) (nxt # pages) sfin
      | _ \<Rightarrow> False)"

definition listTablesCall ::
  "'s Client \<Rightarrow> 's \<Rightarrow> string option \<Rightarrow> (string + string list \<times> string option) \<times> 's"
where
  "listTablesCall db s cur =
     (case clientListTables db s \<lparr>ExclusiveStartTableName = cur\<rparr> of
        (Inl err, s') \<Rightarrow> (Inl err, s')
      | (Inr out, s') \<Rightarrow> (Inr (TableNames out, LastEvaluatedTableName out), s'))"

definition scanCall ::
  "'s Client \<Rightarrow> ScanInput \<Rightarrow> 's \<Rightarrow> Item option \<Rightarrow> (string + Item list \<times> Item option) \<times> 's"
where
  "scanCall db input s cur =
     (case clientScan db s (input\<lparr>scanExclusiveStartKey := cur\<rparr>) of
        (Inl err, s') \<Rightarrow> (Inl err, s')
      | (Inr out, s') \<Rightarrow> (Inr (scanItems out, scanLastEvaluatedKey out), s'))"

definition queryCall ::
  "'s Client \<Rightarrow> QueryInput \<Rightarrow> 's \<Rightarrow> Item option \<Rightarrow> (string + Item list \<times> Item option) \<times> 's"
where
  "queryCall db input s cur =
     (case clientQuery db s (input\<lparr>queryExclusiveStartKey := cur\<rparr>) of
        (Inl err, s') \<Rightarrow> (Inl err, s')
      | (Inr out, s') \<Rightarrow> (Inr (queryItems out, queryLastEvaluatedKey out), s'))"

text \<open>
  A simulated backend holding three pages of two records each (and three pages of two
  table names each). Its state is the log of the calls it received, each with the cursor
  it came with, so every call leaves a trace.
\<close>

datatype Call =
    ListTablesCall "string option"
  | ScanCall "Item option"
  | QueryCall "Item option"
  | GetItemCall Item
  | PutItemCall Item
  | DeleteItemCall Item

definition rec1 :: Item where "rec1 = [(''pk'', MemberS ''a'')]"
definition rec2 :: Item where "rec2 = [(''pk'', MemberS ''b'')]"
definition rec3 :: Item where "rec3 = [(''pk'', MemberS ''c'')]"
definition rec4 :: Item where "rec4 = [(''pk'', MemberS ''d'')]"
definition rec5 :: Item where "rec5 = [(''pk'', MemberS ''e'')]"
definition rec6 :: Item where "rec6 = [(''pk'', MemberS ''f'')]"

definition threePages :: "Item option \<Rightarrow> (Item list \<times> Item option) option" where
  "threePages cur =
     (if cur = None then Some ([rec1, rec2], Some rec2)
      else if cur = Some rec2 then Some ([rec3, rec4], Some rec4)
      else if cur = Some rec4 then Some ([rec5, rec6], None)
      else None)"

definition threeNamePages :: "string option \<Rightarrow> (string list \<times> string option) option" where
  "threeNamePages cur =
     (if cur = None then Some ([''t1'', ''t2''], Some ''t2'')
      else if cur = Some ''t2'' then Some ([''t3'', ''t4''], Some ''t4'')
      else if cur = Some ''t4'' then Some ([''t5'', ''t6''], None)
      else None)"

definition simulated :: "Call list Client" where
  "simulated =
     \<lparr>clientListTables = (\<lambda>log input.
        (case threeNamePages (ExclusiveStartTableName input) of
           None \<Rightarrow> Inl ''ValidationException''
         | Some (names, cur) \<Rightarrow> Inr \<lparr>TableNames = names, LastEvaluatedTableName = cur\<rparr>,
         log @ [ListTablesCall (ExclusiveStartTableName input)])),
      clientScan = (\<lambda>log input.
        (case threePages (scanExclusiveStartKey input) of
           None \<Rightarrow> Inl ''ValidationException''
         | Some (items, cur) \<Rightarrow> Inr \<lparr>scanItems = items, scanLastEvaluatedKey = cur\<rparr>,
         log @ [ScanCall (scanExclusiveStartKey input)])),
      clientQuery = (\<lambda>log input.
        (case threePages (queryExclusiveStartKey input) of
           None \<Rightarrow> Inl ''ValidationException''
         | Some (items, cur) \<Rightarrow> Inr \<lparr>queryItems = items, queryLastEvaluatedKey = cur\<rparr>,
         log @ [QueryCall (queryExclusiveStartKey input)])),
      clientGetItem = (\<lambda>log table key. (Inr None, log @ [GetItemCall key])),
      clientPutItem = (\<lambda>log table item. (None, log @ [PutItemCall item])),
      clientDeleteItem = (\<lambda>log table key. (None, log @ [DeleteItemCall key]))\<rparr>"

subsection \<open>Go values and the libraries the codec calls (ddb.go)\<close>

text \<open>
  What \<open>json.Unmarshal\<close> stores into an \<open>any\<close>: \<open>nil\<close>, \<open>bool\<close>, \<open>float64\<close>, \<open>string\<close>,
  \<open>[]any\<close> and \<open>map[string]any\<close>.
  \<^item> A \<open>float64\<close> is kept as the number literal it was read from; the code never computes
    with it, it only prints it (\<open>sprintv\<close> below).
  \<^item> A string carries, besides its bytes, what \<open>json.Unmarshal\<close> reads from those bytes
    when the code asks for it (the hints \<open>L\<close>, \<open>M\<close>, \<open>SS\<close>, \<open>NS\<close> and \<open>BS\<close> parse a string
    as JSON): \<open>None\<close> when the bytes are not JSON. The parser's answers are part of the
    input, which keeps the decoder a total recursive function; every statement below
    holds whatever these answers are.
\<close>

datatype jvalue =
    JNil
  | JBool bool
  | JFloat string
  | JString string "jvalue option"
  | JArray "jvalue list"
  | JObject "(string \<times> jvalue) list"

text \<open>
  The values the codec itself holds in an \<open>any\<close>: the above (strings without the parser's
  answer), and \<open>json.Number\<close>, \<open>[]byte\<close>, \<open>[]string\<close> and \<open>[][]byte\<close>.
\<close>

datatype any =
    ANil
  | ABool bool
  | AFloat string
  | ANumber string
  | AString string
  | ABytes string
  | AList "any list"
  | AMap "(string \<times> any) list"
  | AStrings "string list"
  | AByteSlices "string list"

text \<open>
  A JSON document as \<open>json.Marshal\<close> writes it, before it is laid out as text: the
  members of an object are listed in the order of the map (the text has them sorted by
  key, which no reader of the text depends on).
\<close>

datatype doc =
    DNull
  | DBool bool
  | DNumber string
  | DString string
  | DArray "doc list"
  | DObject "(string \<times> doc) list"

text \<open>
  The functions of \<open>encoding/json\<close>, \<open>encoding/base64\<close>, \<open>fmt\<close>, \<open>os\<close> and the text input
  widget that the code calls and that are not part of this repository. They are
  parameters: nothing is assumed about them.
  \<^item> \<open>parseJSON text\<close>: the value \<open>json.Unmarshal\<close> reads from \<open>text\<close> into an \<open>any\<close>, \<open>None\<close>
    when it reports an error;
  \<^item> \<open>listError text\<close>, \<open>mapError text\<close>: the text of the error it reports when \<open>text\<close> is
    not read into a \<open>[]any\<close>, a \<open>map[string]any\<close>;
  \<^item> \<open>marshalText d\<close>, \<open>marshalIndentText d\<close>: the text \<open>json.Marshal\<close> and
    \<open>json.MarshalIndent\<close> lay out for the document \<open>d\<close>;
  \<^item> \<open>validNumber s\<close>: \<open>s\<close> is a JSON number literal (a \<open>json.Number\<close> that is not one
    makes \<open>json.Marshal\<close> fail); \<open>marshalError v\<close>: the text of that error;
  \<^item> \<open>floatJSON f\<close>: how \<open>json.Marshal\<close> writes the \<open>float64\<close> \<open>f\<close>;
  \<^item> \<open>base64 b\<close>: the standard base64 text of the bytes \<open>b\<close> (how \<open>json.Marshal\<close> writes a
    \<open>[]byte\<close>);
  \<^item> \<open>sprintv v\<close>: \<open>fmt.Sprintf("%v", v)\<close>;
  \<^item> \<open>scansFloat s\<close>: \<open>fmt.Sscanf(s, "%f", new(float64))\<close> reports no error;
  \<^item> \<open>toUpperUnicode\<close>, \<open>toLowerUnicode\<close>, \<open>trimSpaceUnicode\<close>, \<open>fieldsUnicode\<close>: what
    \<open>strings.ToUpper\<close>, \<open>ToLower\<close>, \<open>TrimSpace\<close> and \<open>Fields\<close> do on a string that has a
    byte outside ASCII (on ASCII strings they are defined below).
\<close>

record env =
  parseJSON :: "string \<Rightarrow> jvalue option"
  listError :: "string \<Rightarrow> string"
  mapError :: "string \<Rightarrow> string"
  marshalText :: "doc \<Rightarrow> string"
  marshalIndentText :: "doc \<Rightarrow> string"
  validNumber :: "string \<Rightarrow> bool"
  marshalError :: "any \<Rightarrow> string"
  floatJSON :: "string \<Rightarrow> string"
  base64 :: "string \<Rightarrow> string"
  sprintv :: "any \<Rightarrow> string"
  scansFloat :: "string \<Rightarrow> bool"
  toUpperUnicode :: "string \<Rightarrow> string"
  toLowerUnicode :: "string \<Rightarrow> string"
  trimSpaceUnicode :: "string \<Rightarrow> string"
  fieldsUnicode :: "string \<Rightarrow> string list"

text \<open>A value read from JSON, as the \<open>any\<close> it is.\<close>

fun asAny :: "jvalue \<Rightarrow> any" where
  "asAny JNil = ANil"
| "asAny (JBool b) = ABool b"
| "asAny (JFloat f) = AFloat f"
| "asAny (JString s p) = AString s"
| "asAny (JArray xs) = AList (map asAny xs)"
| "asAny (JObject kvs) = AMap (map (\<lambda>(k, v). (k, asAny v)) kvs)"

text \<open>
  \<open>json.Unmarshal\<close> into a \<open>[]any\<close> and into a \<open>map[string]any\<close>, from what it reads into an
  \<open>any\<close>: \<open>null\<close> leaves the target \<open>nil\<close> (an empty list, an empty map) without an error,
  a value of another kind is an error.
\<close>

fun unmarshalList :: "jvalue option \<Rightarrow> jvalue list option" where
  "unmarshalList (Some (JArray xs)) = Some xs"
| "unmarshalList (Some JNil) = Some []"
| "unmarshalList _ = None"

fun unmarshalMap :: "jvalue option \<Rightarrow> (string \<times> jvalue) list option" where
  "unmarshalMap (Some (JObject kvs)) = Some kvs"
| "unmarshalMap (Some JNil) = Some []"
| "unmarshalMap _ = None"

subsection \<open>Strings\<close>

text \<open>
  \<open>strings.LastIndex(s, c)\<close> for a one-byte \<open>c\<close>: the position of the last \<open>c\<close> in \<open>s\<close>, or
  \<open>-1\<close>.
\<close>

fun LastIndex :: "string \<Rightarrow> char \<Rightarrow> int" where
  "LastIndex [] c = -1"
| "LastIndex (x # xs) c =
     (let r = LastIndex xs c in if r \<noteq> -1 then r + 1 else if x = c then 0 else -1)"

definition HasSuffix :: "string \<Rightarrow> string \<Rightarrow> bool" where
  "HasSuffix s suffix =
     (length suffix \<le> length s \<and> drop (length s - length suffix) s = suffix)"

definition TrimSuffix :: "string \<Rightarrow> string \<Rightarrow> string" where
  "TrimSuffix s suffix = (if HasSuffix s suffix then take (length s - length suffix) s else s)"

text \<open>
  \<open>strings.ToUpper\<close> and \<open>strings.ToLower\<close>. Go has a fast path for a string of ASCII
  bytes, which maps \<open>a\<close>..\<open>z\<close> to \<open>A\<close>..\<open>Z\<close> (and back) byte by byte; any other string goes
  through the Unicode tables, which are the library's (\<open>toUpperUnicode\<close>, \<open>toLowerUnicode\<close>).
\<close>

definition isASCII :: "string \<Rightarrow> bool" where
  "isASCII s = list_all (\<lambda>c. (of_char c :: nat) < 128) s"

definition upperChar :: "char \<Rightarrow> char" where
  "upperChar c =
     (case map_of (zip ''abcdefghijklmnopqrstuvwxyz'' ''ABCDEFGHIJKLMNOPQRSTUVWXYZ'') c of
        Some u \<Rightarrow> u
      | None \<Rightarrow> c)"

definition lowerChar :: "char \<Rightarrow> char" where
  "lowerChar c =
     (case map_of (zip ''ABCDEFGHIJKLMNOPQRSTUVWXYZ'' ''abcdefghijklmnopqrstuvwxyz'') c of
        Some l \<Rightarrow> l
      | None \<Rightarrow> c)"

definition ToUpper :: "env \<Rightarrow> string \<Rightarrow> string" where
  "ToUpper env s = (if isASCII s then map upperChar s else toUpperUnicode env s)"

definition ToLower :: "env \<Rightarrow> string \<Rightarrow> string" where
  "ToLower env s = (if isASCII s then map lowerChar s else toLowerUnicode env s)"

subsection \<open>Decoding: type hints (ddb.go)\<close>

text \<open>
  The errors of \<open>JSONToItem\<close>, one constructor for each \<open>fmt.Errorf\<close> of the codec, with the
  values it formats; an error of \<open>json.Unmarshal\<close> that is wrapped is kept as its text.
  \<open>errorText\<close> is \<open>err.Error()\<close>.
\<close>

datatype error =
    InvalidJSON string
  | FailedToConvert string string error
  | CannotConvertToBoolean jvalue
  | CannotParseList string
  | CannotParseMap string
  | CannotConvertToMap jvalue
  | UnknownTypeHint string

fun errorText :: "env \<Rightarrow> error \<Rightarrow> string" where
  "errorText env (InvalidJSON e) = ''invalid JSON: '' @ e"
| "errorText env (FailedToConvert cleanKey typeHint e) =
     ''failed to convert '' @ cleanKey @ '' with type '' @ typeHint @ '': '' @ errorText env e"
| "errorText env (CannotConvertToBoolean v) =
     ''cannot convert '' @ sprintv env (asAny v) @ '' to boolean''"
| "errorText env (CannotParseList e) = ''cannot parse list: '' @ e"
| "errorText env (CannotParseMap e) = ''cannot parse map: '' @ e"
| "errorText env (CannotConvertToMap v) =
     ''cannot convert '' @ sprintv env (asAny v) @ '' to map''"
| "errorText env (UnknownTypeHint typeHint) = ''unknown type hint: '' @ typeHint"

text \<open>
  \<open>processTypeHints\<close> and \<open>convertValueWithTypeHint\<close>. The loop of \<open>processTypeHints\<close> over
  the map is \<open>processTypeHints_loop\<close>, with the \<open>result\<close> map built so far; the list is the
  order in which the loop meets the keys. In \<open>convertValueWithTypeHint\<close> the type switches
  of the source have the cases \<open>json.Number\<close>, \<open>int\<close>, \<open>int64\<close> and \<open>[]byte\<close>, which no value
  read by \<open>json.Unmarshal\<close> has; they fall under the \<open>default\<close> cases here.
\<close>

function (sequential)
  processTypeHints_loop :: "env \<Rightarrow> (string \<times> jvalue) list \<Rightarrow> (string \<times> any) list \<Rightarrow> error + (string \<times> any) list"
  and convertValueWithTypeHint :: "env \<Rightarrow> jvalue \<Rightarrow> string \<Rightarrow> error + any"
where
  "processTypeHints_loop env [] result = Inr result"
| "processTypeHints_loop env ((key, value) # rest) result =
     (if LastIndex key CHR ''<'' \<noteq> -1 \<and> HasSuffix key ''>'' then
        (let idx = nat (LastIndex key CHR ''<'');
             typeHint = TrimSuffix (drop (idx + 1) key) ''>'';
             cleanKey = take idx key
         in case convertValueWithTypeHint env value typeHint of
              Inl err \<Rightarrow> Inl (FailedToConvert cleanKey typeHint err)
            | Inr convertedValue \<Rightarrow>
                processTypeHints_loop env rest (AList.update cleanKey convertedValue result))
      else processTypeHints_loop env rest (AList.update key (asAny value) result))"
| "convertValueWithTypeHint env value typeHint =
     (let hint = ToUpper env typeHint in
      if hint = ''S'' then Inr (AString (sprintv env (asAny value)))
      else if hint = ''N'' then
        (case value of
           JFloat v \<Rightarrow> Inr (AFloat v)
         | JString v p \<Rightarrow> Inr (ANumber v)
         | _ \<Rightarrow> Inr (ANumber (sprintv env (asAny value))))
      else if hint = ''BOOL'' then
        (case value of
           JBool v \<Rightarrow> Inr (ABool v)
         | JString v p \<Rightarrow> Inr (ABool (ToLower env v = ''true''))
         | _ \<Rightarrow> Inl (CannotConvertToBoolean value))
      else if hint = ''NULL'' then Inr ANil
      else if hint = ''L'' then
        (case value of
           JArray v \<Rightarrow> Inr (AList (map asAny v))
         | JString v p \<Rightarrow>
             (case unmarshalList p of
                None \<Rightarrow> Inl (CannotParseList (listError env v))
              | Some list \<Rightarrow> Inr (AList (map asAny list)))
         | _ \<Rightarrow> Inr (AList [asAny value]))
      else if hint = ''M'' then
        (case value of
           JObject v \<Rightarrow>
             (case processTypeHints_loop env v [] of
                Inl err \<Rightarrow> Inl err
              | Inr m \<Rightarrow> Inr (AMap m))
         | JString v p \<Rightarrow>
             (case p of
                Some (JObject m) \<Rightarrow>
                  (case processTypeHints_loop env m [] of
                     Inl err \<Rightarrow> Inl err
                   | Inr m' \<Rightarrow> Inr (AMap m'))
              | Some JNil \<Rightarrow> Inr (AMap [])
              | _ \<Rightarrow> Inl (CannotParseMap (mapError env v)))
         | _ \<Rightarrow> Inl (CannotConvertToMap value))
      else if hint = ''SS'' then
        (case value of
           JArray v \<Rightarrow> Inr (AMap [(''__SS'', AStrings (map (\<lambda>item. sprintv env (asAny item)) v))])
         | JString v p \<Rightarrow>
             (case unmarshalList p of
                None \<Rightarrow> Inr (AMap [(''__SS'', AStrings [v])])
              | Some list \<Rightarrow>
                  Inr (AMap [(''__SS'', AStrings (map (\<lambda>item. sprintv env (asAny item)) list))]))
         | _ \<Rightarrow> Inr (AMap [(''__SS'', AStrings [sprintv env (asAny value)])]))
      else if hint = ''NS'' then
        (case value of
           JArray v \<Rightarrow> Inr (AMap [(''__NS'', AStrings (map (\<lambda>item. sprintv env (asAny item)) v))])
         | JString v p \<Rightarrow>
             (case unmarshalList p of
                None \<Rightarrow> Inr (AMap [(''__NS'', AStrings [v])])
              | Some list \<Rightarrow>
                  Inr (AMap [(''__NS'', AStrings (map (\<lambda>item. sprintv env (asAny item)) list))]))
         | _ \<Rightarrow> Inr (AMap [(''__NS'', AStrings [sprintv env (asAny value)])]))
      else if hint = ''B'' then
        (case value of
           JString v p \<Rightarrow> Inr (ABytes v)
         | _ \<Rightarrow> Inr (ABytes (sprintv env (asAny value))))
      else if hint = ''BS'' then
        (case value of
           JArray v \<Rightarrow>
             Inr (AMap [(''__BS'', AByteSlices (map (\<lambda>item. sprintv env (asAny item)) v))])
         | JString v p \<Rightarrow>
             (case unmarshalList p of
                None \<Rightarrow> Inr (AMap [(''__BS'', AByteSlices [v])])
              | Some list \<Rightarrow>
                  Inr (AMap [(''__BS'', AByteSlices (map (\<lambda>item. sprintv env (asAny item)) list))]))
         | _ \<Rightarrow> Inr (AMap [(''__BS'', AByteSlices [sprintv env (asAny value)])]))
      else Inl (UnknownTypeHint typeHint))"
  by pat_completeness auto
termination
  by (relation "measure (\<lambda>x. case x of
        Inl (env, data, result) \<Rightarrow> 2 * size (JObject data)
      | Inr (env, value, typeHint) \<Rightarrow> 2 * size value + 1)") auto

declare convertValueWithTypeHint.simps [simp del]

definition processTypeHints :: "env \<Rightarrow> (string \<times> jvalue) list \<Rightarrow> error + (string \<times> any) list" where
  "processTypeHints env data = processTypeHints_loop env data []"

subsection \<open>Between Go values and attribute values (ddb.go)\<close>

fun attrToInterface :: "AttributeValue \<Rightarrow> any"
  and attributeValueToInterface :: "Item \<Rightarrow> (string \<times> any) list"
where
  "attrToInterface (MemberS v) = AString v"
| "attrToInterface (MemberN v) = ANumber v"
| "attrToInterface (MemberBOOL v) = ABool v"
| "attrToInterface (MemberNULL v) = ANil"
| "attrToInterface (MemberL v) = AList (map attrToInterface v)"
| "attrToInterface (MemberM v) = AMap (attributeValueToInterface v)"
| "attrToInterface (MemberSS v) = AStrings v"
| "attrToInterface (MemberNS v) = AStrings v"
| "attrToInterface (MemberB v) = ABytes v"
| "attrToInterface (MemberBS v) = AByteSlices v"
| "attributeValueToInterface [] = []"
| "attributeValueToInterface ((k, v) # item) = (k, attrToInterface v) # attributeValueToInterface item"

text \<open>The type assertions \<open>v.([]string)\<close> and \<open>v.([][]byte)\<close> on a map entry that may be absent.\<close>

fun assertStrings :: "any option \<Rightarrow> string list option" where
  "assertStrings (Some (AStrings ss)) = Some ss"
| "assertStrings _ = None"

fun assertByteSlices :: "any option \<Rightarrow> string list option" where
  "assertByteSlices (Some (AByteSlices bs)) = Some bs"
| "assertByteSlices _ = None"

text \<open>
  \<open>valueToAttr\<close> and \<open>interfaceToAttributeValue\<close>. The keys of a Go map are distinct, so
  each \<open>result[k] = valueToAttr(v)\<close> of the loop adds an entry. The case \<open>int\<close> of the switch
  has no value; \<open>[]string\<close> and \<open>[][]byte\<close> fall under \<open>default\<close>.
\<close>

fun valueToAttr :: "env \<Rightarrow> any \<Rightarrow> AttributeValue"
  and interfaceToAttributeValue :: "env \<Rightarrow> (string \<times> any) list \<Rightarrow> Item"
where
  "valueToAttr env (AString val) = MemberS val"
| "valueToAttr env (ANumber val) = MemberN val"
| "valueToAttr env (AFloat val) = MemberN (sprintv env (AFloat val))"
| "valueToAttr env (ABool val) = MemberBOOL val"
| "valueToAttr env ANil = MemberNULL True"
| "valueToAttr env (ABytes val) = MemberB val"
| "valueToAttr env (AList val) = MemberL (map (valueToAttr env) val)"
| "valueToAttr env (AMap val) =
     (case assertStrings (map_of val ''__SS'') of
        Some ssSlice \<Rightarrow> MemberSS ssSlice
      | None \<Rightarrow>
         (case assertStrings (map_of val ''__NS'') of
            Some nsSlice \<Rightarrow> MemberNS nsSlice
          | None \<Rightarrow>
             (case assertByteSlices (map_of val ''__BS'') of
                Some bsSlice \<Rightarrow> MemberBS bsSlice
              | None \<Rightarrow> MemberM (interfaceToAttributeValue env val))))"
| "valueToAttr env (AStrings val) = MemberS (sprintv env (AStrings val))"
| "valueToAttr env (AByteSlices val) = MemberS (sprintv env (AByteSlices val))"
| "interfaceToAttributeValue env [] = []"
| "interfaceToAttributeValue env ((k, v) # data) =
     (k, valueToAttr env v) # interfaceToAttributeValue env data"

subsection \<open>Encoding and decoding an item (ddb.go)\<close>

text \<open>
  \<open>json.Marshal\<close> on the values \<open>attributeValueToInterface\<close> builds: the document it
  writes (\<open>toDoc\<close>), and when it writes one at all (\<open>marshalable\<close>: every \<open>json.Number\<close> is
  empty, which is written \<open>0\<close>, or a number literal). A \<open>[]string\<close> is written as an array
  of strings, a \<open>[]byte\<close> as a base64 string, a \<open>[][]byte\<close> as an array of base64 strings.
  Strings are taken to be valid UTF-8 and slices not to be \<open>nil\<close> (\<open>json.Marshal\<close> writes a
  replacement character for a broken byte and \<open>null\<close> for a \<open>nil\<close> slice).
\<close>

fun toDoc :: "env \<Rightarrow> any \<Rightarrow> doc" where
  "toDoc env ANil = DNull"
| "toDoc env (ABool b) = DBool b"
| "toDoc env (AFloat f) = DNumber (floatJSON env f)"
| "toDoc env (ANumber n) = DNumber (if n = [] then ''0'' else n)"
| "toDoc env (AString s) = DString s"
| "toDoc env (ABytes b) = DString (base64 env b)"
| "toDoc env (AList xs) = DArray (map (toDoc env) xs)"
| "toDoc env (AMap kvs) = DObject (map (\<lambda>(k, v). (k, toDoc env v)) kvs)"
| "toDoc env (AStrings ss) = DArray (map DString ss)"
| "toDoc env (AByteSlices bs) = DArray (map (\<lambda>b. DString (base64 env b)) bs)"

fun marshalable :: "env \<Rightarrow> any \<Rightarrow> bool" where
  "marshalable env (ANumber n) = (n = [] \<or> validNumber env n)"
| "marshalable env (AList xs) = list_all (marshalable env) xs"
| "marshalable env (AMap kvs) = list_all (\<lambda>(k, v). marshalable env v) kvs"
| "marshalable env _ = True"

definition ItemToJSON :: "env \<Rightarrow> Item \<Rightarrow> string" where
  "ItemToJSON env item =
     (let simplified = AMap (attributeValueToInterface item) in
      if marshalable env simplified then marshalText env (toDoc env simplified)
      else ''error: '' @ marshalError env simplified)"

definition ItemToPrettyJSON :: "env \<Rightarrow> Item \<Rightarrow> string" where
  "ItemToPrettyJSON env item =
     (let simplified = AMap (attributeValueToInterface item) in
      if marshalable env simplified then marshalIndentText env (toDoc env simplified)
      else ''error: '' @ marshalError env simplified)"

definition JSONToItem :: "env \<Rightarrow> string \<Rightarrow> error + Item" where
  "JSONToItem env jsonStr =
     (case unmarshalMap (parseJSON env jsonStr) of
        None \<Rightarrow> Inl (InvalidJSON (mapError env jsonStr))
      | Some data \<Rightarrow>
          (case processTypeHints env data of
             Inl err \<Rightarrow> Inl err
           | Inr processedData \<Rightarrow> Inr (interfaceToAttributeValue env processedData)))"

text \<open>
  The document a value read from JSON stands for: reading a text that lays out the
  document \<open>d\<close> gives a value \<open>v\<close> with \<open>docOf v = d\<close>.
\<close>

fun docOf :: "jvalue \<Rightarrow> doc" where
  "docOf JNil = DNull"
| "docOf (JBool b) = DBool b"
| "docOf (JFloat f) = DNumber f"
| "docOf (JString s p) = DString s"
| "docOf (JArray xs) = DArray (map docOf xs)"
| "docOf (JObject kvs) = DObject (map (\<lambda>(k, v). (k, docOf v)) kvs)"

subsection \<open>Commands: trimming, splitting, key=value (model.go, ddb.go)\<close>

text \<open>
  \<open>strings.TrimSpace\<close> and \<open>strings.Fields\<close>, on ASCII strings: the white space of ASCII is
  tab, line feed, vertical tab, form feed, carriage return and space.
\<close>

definition asciiSpace :: "char \<Rightarrow> bool" where
  "asciiSpace c = (c \<in> set [CHR 0x09, CHR 0x0A, CHR 0x0B, CHR 0x0C, CHR 0x0D, CHR '' ''])"

definition TrimSpace :: "env \<Rightarrow> string \<Rightarrow> string" where
  "TrimSpace env s =
     (if isASCII s then rev (dropWhile asciiSpace (rev (dropWhile asciiSpace s)))
      else trimSpaceUnicode env s)"

fun fieldsFrom :: "string \<Rightarrow> string \<Rightarrow> string list" where
  "fieldsFrom [] word = (if word = [] then [] else [word])"
| "fieldsFrom (c # cs) word =
     (if asciiSpace c then (if word = [] then fieldsFrom cs [] else word # fieldsFrom cs [])
      else fieldsFrom cs (word @ [c]))"

definition Fields :: "env \<Rightarrow> string \<Rightarrow> string list" where
  "Fields env s = (if isASCII s then fieldsFrom s [] else fieldsUnicode env s)"

text \<open>\<open>strings.SplitN(s, "=", 2)\<close>.\<close>

definition SplitN2 :: "string \<Rightarrow> char \<Rightarrow> string list" where
  "SplitN2 s sep =
     (if sep \<in> set s then [takeWhile (\<lambda>c. c \<noteq> sep) s, tl (dropWhile (\<lambda>c. c \<noteq> sep) s)]
      else [s])"

definition ParseKeyValue :: "env \<Rightarrow> string \<Rightarrow> string + (string \<times> AttributeValue)" where
  "ParseKeyValue env keyValue =
     (case SplitN2 keyValue CHR ''='' of
        [k, v] \<Rightarrow>
          (let key = TrimSpace env k; value = TrimSpace env v in
           if scansFloat env value \<and> CHR 0x22 \<notin> set value then Inr (key, MemberN value)
           else Inr (key, MemberS value))
      | _ \<Rightarrow> Inl (''invalid key=value format: '' @ keyValue))"

subsection \<open>The session (model.go)\<close>

datatype Mode =
    ModeNormal
  | ModeCommand
  | ModeTableSelect
  | ModeItemView
  | ModeConfirmDelete
  | ModeHelp
  | ModeErrorView

record IndexInfo =
  idxName :: string
  idxPartitionKey :: string
  idxSortKey :: string

record TableInfo =
  Name :: string
  PartitionKey :: string
  SortKey :: string
  GlobalIndexes :: "IndexInfo list"
  LocalIndexes :: "IndexInfo list"

text \<open>
  The struct \<open>Model\<close>. \<open>input\<close> is the value of the text input widget and \<open>inputWidth\<close> its
  width; \<open>selected\<close> is a Go map from positions to \<open>true\<close>; \<open>err\<close> is the text of the error.
  The field \<open>ddb\<close> (the client) is not part of the record: the backend is an argument of
  the functions that run a command.
\<close>

record Model =
  tables :: "TableInfo list"
  currentTable :: int
  requestedTable :: string
  items :: "Item list"
  cursor :: int
  selected :: "(int \<times> bool) list"
  width :: int
  height :: int
  mode :: Mode
  input :: string
  inputWidth :: int
  keyBuffer :: string
  status :: string
  err :: "string option"
  viewContent :: string
  editTmpFile :: string
  editOrigContent :: string
  preserveStatus :: bool
  lastError :: string

text \<open>
  A key press: the code looks at \<open>msg.Type\<close>, which it compares with \<open>tea.KeyEsc\<close> and
  \<open>tea.KeyEnter\<close> only, and at \<open>msg.String()\<close>. Both are kept, and nothing is assumed on how
  they go together.
\<close>

datatype KeyType = KeyEnter | KeyEsc | KeyOther

datatype Msg =
    WindowSizeMsg int int
  | tablesLoadedMsg "TableInfo list" "string option"
  | itemsLoadedMsg "Item list" "string option" bool
  | operationDoneMsg string "string option"
  | editorFinishedMsg string string "string option"
  | itemFetchedForEditMsg "Item option" "string option"
  | KeyMsg KeyType string
  | OtherMsg

text \<open>
  A \<open>tea.Cmd\<close> is \<open>nil\<close>, \<open>tea.Quit\<close> or a closure that the runtime runs later; a closure is
  kept as what it captured:
  \<^item> \<open>LoadItems tableName indexName\<close>: the closure of \<open>loadItems\<close>;
  \<^item> \<open>RunQuery tableName indexName keyCondition exprValues\<close>: of \<open>executeQuery\<close>;
  \<^item> \<open>RunGet tableName key\<close>, \<open>RunFetchForEdit tableName key\<close>, \<open>RunDelete tableName key\<close>: of
    \<open>executeGet\<close>, \<open>executeUpdate\<close>, \<open>executeDelete\<close>;
  \<^item> \<open>RunDeleteSelected table toDelete\<close>: of \<open>deleteSelectedItems\<close>;
  \<^item> \<open>ExecEditor editor file origContent\<close>: \<open>tea.ExecProcess\<close> of the editor on the
    temporary file, with the callback of \<open>openEditor\<close>;
  \<^item> \<open>SaveNoTable\<close>, \<open>SaveItem tableName content\<close>: the two closures of \<open>saveEditedItem\<close>;
  \<^item> \<open>InputCmd\<close>: the command the text input widget returns.
\<close>

datatype Cmd =
    NoCmd
  | Quit
  | LoadItems string string
  | RunQuery string string string Item
  | RunGet string Item
  | RunFetchForEdit string Item
  | RunDelete string Item
  | RunDeleteSelected TableInfo "int list"
  | ExecEditor string string string
  | SaveNoTable
  | SaveItem string string
  | InputCmd

text \<open>
  The operating system and the text input widget, as far as one step asks them:
  \<open>getenvEDITOR\<close> is \<open>os.Getenv("EDITOR")\<close>; \<open>createTemp\<close> is the answer of \<open>os.CreateTemp\<close>
  (the text of the error, or the name of the new file); \<open>writeError\<close> the error of
  \<open>WriteString\<close>, if any; \<open>inputUpdate value type string\<close> the value of the widget after
  its \<open>Update\<close> on a key. The temporary files are a map from names to contents.
\<close>

record sys =
  getenvEDITOR :: string
  createTemp :: "string + string"
  writeError :: "string option"
  inputUpdate :: "string \<Rightarrow> KeyType \<Rightarrow> string \<Rightarrow> string"

type_synonym files = "string \<Rightarrow> string option"

text \<open>
  A step of the session gives the new session, the command and the files; \<open>None\<close> is a
  run-time panic (a slice indexed out of its range).
\<close>

type_synonym step = "(Model \<times> Cmd \<times> files) option"

definition index :: "'a list \<Rightarrow> int \<Rightarrow> 'a option" where
  "index xs i = (if 0 \<le> i \<and> i < int (length xs) then Some (xs ! nat i) else None)"

text \<open>\<open>fmt.Sprintf("%d", n)\<close>.\<close>

fun showNat :: "nat \<Rightarrow> string" where
  "showNat n =
     (if n < 10 then [''0123456789'' ! n] else showNat (n div 10) @ [''0123456789'' ! (n mod 10)])"

declare showNat.simps [simp del]

definition showInt :: "int \<Rightarrow> string" where
  "showInt i = (if i < 0 then CHR ''-'' # showNat (nat (- i)) else showNat (nat i))"

definition len :: "'a list \<Rightarrow> int" where
  "len xs = int (length xs)"

definition setError :: "string \<Rightarrow> Model \<Rightarrow> Model" where
  "setError errStr m =
     (let m1 = m\<lparr>lastError := errStr, err := Some errStr\<rparr> in
      if length errStr > 50 then
        m1\<lparr>status := take 47 errStr @ ''... (/err)'', viewContent := errStr, mode := ModeErrorView\<rparr>
      else m1\<lparr>status := errStr\<rparr>)"

text \<open>The loop of \<open>Update\<close> that looks for the requested table: the first position with the name.\<close>

fun findTable :: "TableInfo list \<Rightarrow> string \<Rightarrow> int \<Rightarrow> int option" where
  "findTable [] name i = None"
| "findTable (t # ts) name i = (if Name t = name then Some i else findTable ts name (i + 1))"

subsection \<open>The external editor (model.go)\<close>

definition openEditor :: "sys \<Rightarrow> string \<Rightarrow> Model \<Rightarrow> files \<Rightarrow> step" where
  "openEditor sys content m fs =
     (let m1 = m\<lparr>editOrigContent := content\<rparr>;
          editor = (if getenvEDITOR sys = '''' then ''vim'' else getenvEDITOR sys)
      in case createTemp sys of
           Inl e \<Rightarrow> Some (m1\<lparr>status := ''Error creating temp file: '' @ e\<rparr>, NoCmd, fs)
         | Inr tmpFile \<Rightarrow>
             (let m2 = m1\<lparr>editTmpFile := tmpFile\<rparr> in
              case writeError sys of
                Some e \<Rightarrow>
                  Some (m2\<lparr>status := ''Error writing temp file: '' @ e\<rparr>, NoCmd, fs(tmpFile := None))
              | None \<Rightarrow> Some (m2, ExecEditor editor tmpFile content, fs(tmpFile \<mapsto> content))))"

text \<open>
  The callback of \<open>tea.ExecProcess\<close> in \<open>openEditor\<close>, run when the editor has exited with
  the error \<open>e\<close> (or none): \<open>m\<close> is the session at that time (the callback reads
  \<open>m.editTmpFile\<close>), \<open>origContent\<close> is what the closure captured, \<open>fs\<close> the files as the
  editor left them. \<open>os.ReadFile\<close> fails on a file that is not there.
\<close>

definition editorCallback :: "Model \<Rightarrow> string \<Rightarrow> string option \<Rightarrow> files \<Rightarrow> Msg \<times> files" where
  "editorCallback m origContent e fs =
     (case e of
        Some e \<Rightarrow> (editorFinishedMsg '''' '''' (Some e), fs(editTmpFile m := None))
      | None \<Rightarrow>
          (case fs (editTmpFile m) of
             None \<Rightarrow>
               (editorFinishedMsg '''' ''''
                  (Some (''open '' @ editTmpFile m @ '': no such file or directory'')),
                fs(editTmpFile m := None))
           | Some result \<Rightarrow>
               (editorFinishedMsg result origContent None, fs(editTmpFile m := None))))"

definition saveEditedItem :: "string \<Rightarrow> Model \<Rightarrow> files \<Rightarrow> step" where
  "saveEditedItem content m fs =
     (if len (tables m) = 0 then Some (m, SaveNoTable, fs)
      else case index (tables m) (currentTable m) of
             None \<Rightarrow> None
           | Some table \<Rightarrow> Some (m, SaveItem (Name table) content, fs))"

text \<open>
  Running the closures of \<open>saveEditedItem\<close> against the backend in state \<open>s\<close>: the message
  they produce, and the state of the backend afterwards.
\<close>

definition runSaveNoTable :: "'s \<Rightarrow> Msg \<times> 's" where
  "runSaveNoTable s = (operationDoneMsg '''' (Some ''no table selected''), s)"

definition runSaveItem :: "env \<Rightarrow> 's Client \<Rightarrow> string \<Rightarrow> string \<Rightarrow> 's \<Rightarrow> Msg \<times> 's" where
  "runSaveItem env db tableName content s =
     (case JSONToItem env content of
        Inl e \<Rightarrow> (operationDoneMsg '''' (Some (errorText env e)), s)
      | Inr item \<Rightarrow>
          (case clientPutItem db s tableName item of
             (Some e, s') \<Rightarrow> (operationDoneMsg '''' (Some (''put item failed: '' @ e)), s')
           | (None, s') \<Rightarrow> (operationDoneMsg ''Item saved'' None, s')))"

definition putNewItem :: "sys \<Rightarrow> Model \<Rightarrow> files \<Rightarrow> step" where
  "putNewItem sys m fs =
     (if len (tables m) > 0 then
        (case index (tables m) (currentTable m) of
           None \<Rightarrow> None
         | Some table \<Rightarrow>
             (if SortKey table \<noteq> '''' then
                openEditor sys
                  (''{'' @ [CHR 0x0A] @ ''  '' @ [CHR 0x22] @ PartitionKey table @ [CHR 0x22] @ '': ''
                   @ [CHR 0x22, CHR 0x22] @ '','' @ [CHR 0x0A] @ ''  '' @ [CHR 0x22] @ SortKey table
                   @ [CHR 0x22] @ '': '' @ [CHR 0x22, CHR 0x22] @ [CHR 0x0A] @ ''}'')
                  m fs
              else
                openEditor sys
                  (''{'' @ [CHR 0x0A] @ ''  '' @ [CHR 0x22] @ PartitionKey table @ [CHR 0x22] @ '': ''
                   @ [CHR 0x22, CHR 0x22] @ [CHR 0x0A] @ ''}'')
                  m fs))
      else openEditor sys ''{}'' m fs)"

definition editCurrentItem :: "env \<Rightarrow> sys \<Rightarrow> Model \<Rightarrow> files \<Rightarrow> step" where
  "editCurrentItem env sys m fs =
     (if len (items m) = 0 \<or> cursor m \<ge> len (items m) then
        Some (m\<lparr>status := ''No item selected''\<rparr>, NoCmd, fs)
      else case index (items m) (cursor m) of
             None \<Rightarrow> None
           | Some item \<Rightarrow> openEditor sys (ItemToPrettyJSON env item) m fs)"

subsection \<open>Commands (model.go)\<close>

text \<open>
  The key of \<open>executeGet\<close>, \<open>executeUpdate\<close> and \<open>executeDelete\<close>: the partition key from the
  first argument and, when there is a second argument and the table has a sort key, the
  sort key from it.
\<close>

definition keyFromArgs :: "TableInfo \<Rightarrow> string list \<Rightarrow> Item option" where
  "keyFromArgs table args =
     (case args of
        [] \<Rightarrow> None
      | pk # rest \<Rightarrow>
          (let key = AList.update (PartitionKey table) (MemberS pk) [] in
           case rest of
             [] \<Rightarrow> Some key
           | sk # _ \<Rightarrow>
               (if SortKey table \<noteq> '''' then Some (AList.update (SortKey table) (MemberS sk) key)
                else Some key)))"

definition executeQuery :: "env \<Rightarrow> string list \<Rightarrow> Model \<Rightarrow> files \<Rightarrow> step" where
  "executeQuery env args m fs =
     (if len (tables m) = 0 then Some (m\<lparr>status := ''No table selected''\<rparr>, NoCmd, fs)
      else case index (tables m) (currentTable m) of
             None \<Rightarrow> None
           | Some table \<Rightarrow>
               (let useIndex = (len args > 1 \<and> CHR ''='' \<notin> set (hd args));
                    indexName = (if useIndex then hd args else '''');
                    keyArgs = (if useIndex then tl args else args)
                in case keyArgs of
                     [] \<Rightarrow> Some (m\<lparr>status := ''Usage: /query [indexName] pk=value''\<rparr>, NoCmd, fs)
                   | keyArg # _ \<Rightarrow>
                       (case ParseKeyValue env keyArg of
                          Inl e \<Rightarrow> Some (m\<lparr>status := ''Error: '' @ e\<rparr>, NoCmd, fs)
                        | Inr (pkName, pkValue) \<Rightarrow>
                            Some (m, RunQuery (Name table) indexName (pkName @ '' = :pk'')
                                       [('':pk'', pkValue)], fs))))"

definition executeGet :: "string list \<Rightarrow> Model \<Rightarrow> files \<Rightarrow> step" where
  "executeGet args m fs =
     (if len (tables m) = 0 then Some (m\<lparr>status := ''No table selected''\<rparr>, NoCmd, fs)
      else case index (tables m) (currentTable m) of
             None \<Rightarrow> None
           | Some table \<Rightarrow>
               (case keyFromArgs table args of
                  None \<Rightarrow> None
                | Some key \<Rightarrow> Some (m, RunGet (Name table) key, fs)))"

definition executeUpdate :: "string list \<Rightarrow> Model \<Rightarrow> files \<Rightarrow> step" where
  "executeUpdate args m fs =
     (if len (tables m) = 0 then Some (m\<lparr>status := ''No table selected''\<rparr>, NoCmd, fs)
      else case index (tables m) (currentTable m) of
             None \<Rightarrow> None
           | Some table \<Rightarrow>
               (case keyFromArgs table args of
                  None \<Rightarrow> None
                | Some key \<Rightarrow> Some (m, RunFetchForEdit (Name table) key, fs)))"

definition executeDelete :: "string list \<Rightarrow> Model \<Rightarrow> files \<Rightarrow> step" where
  "executeDelete args m fs =
     (if len (tables m) = 0 then Some (m\<lparr>status := ''No table selected''\<rparr>, NoCmd, fs)
      else case index (tables m) (currentTable m) of
             None \<Rightarrow> None
           | Some table \<Rightarrow>
               (case keyFromArgs table args of
                  None \<Rightarrow> None
                | Some key \<Rightarrow> Some (m, RunDelete (Name table) key, fs)))"

definition deleteSelectedItems :: "Model \<Rightarrow> files \<Rightarrow> step" where
  "deleteSelectedItems m fs =
     (if len (tables m) = 0 \<or> len (items m) = 0 then Some (m, NoCmd, fs)
      else case index (tables m) (currentTable m) of
             None \<Rightarrow> None
           | Some table \<Rightarrow>
               (let toDelete =
                      (if len (selected m) > 0 then map fst (selected m)
                       else if cursor m < len (items m) then [cursor m]
                       else [])
                in if len toDelete = 0 then Some (m, NoCmd, fs)
                   else Some (m, RunDeleteSelected table toDelete, fs)))"

text \<open>
  \<open>executeCommand\<close>. The first switch compares the trimmed text with the texts of the
  special commands; the second one the lower-cased first word with the names of the data
  commands. \<open>/scan\<close> without a table leaves the second switch and ends, like a word that
  is no command, in the error \<open>unknown command\<close>.
\<close>

definition executeCommand :: "env \<Rightarrow> sys \<Rightarrow> string \<Rightarrow> Model \<Rightarrow> files \<Rightarrow> step" where
  "executeCommand env sys cmd0 m fs =
     (let cmd = TrimSpace env cmd0 in
      if cmd = '':q'' \<or> cmd = '':quit'' \<or> cmd = ''/q'' \<or> cmd = [CHR 0x5C, CHR ''q''] then
        Some (m, Quit, fs)
      else if cmd = '':?'' \<or> cmd = '':help'' \<or> cmd = ''/?'' \<or> cmd = ''/help'' then
        Some (m\<lparr>mode := ModeHelp\<rparr>, NoCmd, fs)
      else if cmd = ''/err'' then
        (if lastError m \<noteq> '''' then
           Some (m\<lparr>viewContent := lastError m, mode := ModeErrorView\<rparr>, NoCmd, fs)
         else Some (m\<lparr>status := ''No errors''\<rparr>, NoCmd, fs))
      else if cmd = ''/mlrd'' then
        Some (m\<lparr>status := ''https://mlrd.tech/docs ~ https://mlrd.app''\<rparr>, NoCmd, fs)
      else
        (case Fields env cmd of
           [] \<Rightarrow> Some (m, NoCmd, fs)
         | word # args \<Rightarrow>
             (let command = ToLower env word;
                  unknown = Some (setError (''unknown command: '' @ command) m, NoCmd, fs)
              in if command = ''/scan'' then
                   (if len (tables m) > 0 then
                      (case index (tables m) (currentTable m) of
                         None \<Rightarrow> None
                       | Some table \<Rightarrow>
                           Some (m, LoadItems (Name table) (if len args > 0 then hd args else ''''), fs))
                    else unknown)
                 else if command = ''/query'' then
                   (if len args < 1 then
                      Some (m\<lparr>status := ''Usage: /query [indexName] pk=value''\<rparr>, NoCmd, fs)
                    else executeQuery env args m fs)
                 else if command = ''/get'' then
                   (if len args < 1 then Some (m\<lparr>status := ''Usage: /get pk [sk]''\<rparr>, NoCmd, fs)
                    else executeGet args m fs)
                 else if command = ''/put'' then putNewItem sys m fs
                 else if command = ''/update'' then
                   (if len args < 1 then Some (m\<lparr>status := ''Usage: /update pk [sk]''\<rparr>, NoCmd, fs)
                    else executeUpdate args m fs)
                 else if command = ''/delete'' \<or> command = ''/rm'' then
                   (if len args < 1 then Some (m\<lparr>mode := ModeConfirmDelete\<rparr>, NoCmd, fs)
                    else executeDelete args m fs)
                 else unknown)))"

subsection \<open>Keys (model.go)\<close>

definition handleCommandMode :: "env \<Rightarrow> sys \<Rightarrow> KeyType \<Rightarrow> string \<Rightarrow> Model \<Rightarrow> files \<Rightarrow> step" where
  "handleCommandMode env sys msgType msgString m fs =
     (case msgType of
        KeyEsc \<Rightarrow> Some (m\<lparr>mode := ModeNormal, input := ''''\<rparr>, NoCmd, fs)
      | KeyEnter \<Rightarrow> executeCommand env sys (input m) (m\<lparr>input := '''', mode := ModeNormal\<rparr>) fs
      | KeyOther \<Rightarrow> Some (m\<lparr>input := inputUpdate sys (input m) msgType msgString\<rparr>, InputCmd, fs))"

definition handleTableSelectMode :: "string \<Rightarrow> Model \<Rightarrow> files \<Rightarrow> step" where
  "handleTableSelectMode msgString m fs =
     (if msgString = ''esc'' then Some (m\<lparr>mode := ModeNormal\<rparr>, NoCmd, fs)
      else if msgString = ''up'' \<or> msgString = ''k'' then
        Some (if currentTable m > 0 then m\<lparr>currentTable := currentTable m - 1\<rparr> else m, NoCmd, fs)
      else if msgString = ''down'' \<or> msgString = ''j'' then
        Some (if currentTable m < len (tables m) - 1 then m\<lparr>currentTable := currentTable m + 1\<rparr>
              else m, NoCmd, fs)
      else if msgString = ''enter'' then
        (if len (tables m) > 0 then
           (case index (tables m) (currentTable m) of
              None \<Rightarrow> None
            | Some table \<Rightarrow> Some (m\<lparr>mode := ModeNormal\<rparr>, LoadItems (Name table) '''', fs))
         else Some (m\<lparr>mode := ModeNormal\<rparr>, NoCmd, fs))
      else Some (m, NoCmd, fs))"

definition handleItemViewMode :: "env \<Rightarrow> sys \<Rightarrow> string \<Rightarrow> Model \<Rightarrow> files \<Rightarrow> step" where
  "handleItemViewMode env sys msgString m fs =
     (if msgString = ''esc'' \<or> msgString = ''q'' \<or> msgString = ''enter'' then
        Some (m\<lparr>mode := ModeNormal, viewContent := ''''\<rparr>, NoCmd, fs)
      else if msgString = ''e'' then
        editCurrentItem env sys (m\<lparr>mode := ModeNormal, viewContent := ''''\<rparr>) fs
      else Some (m, NoCmd, fs))"

definition handleConfirmDeleteMode :: "string \<Rightarrow> Model \<Rightarrow> files \<Rightarrow> step" where
  "handleConfirmDeleteMode msgString m fs =
     (if msgString = ''y'' \<or> msgString = ''Y'' then deleteSelectedItems (m\<lparr>mode := ModeNormal\<rparr>) fs
      else if msgString = ''n'' \<or> msgString = ''N'' \<or> msgString = ''esc'' then
        Some (m\<lparr>mode := ModeNormal\<rparr>, NoCmd, fs)
      else Some (m, NoCmd, fs))"

text \<open>The keys of the normal mode: the second switch of \<open>handleKeyPress\<close>.\<close>

definition handleNormalMode :: "env \<Rightarrow> sys \<Rightarrow> string \<Rightarrow> Model \<Rightarrow> files \<Rightarrow> step" where
  "handleNormalMode env sys msgString m fs =
     (if msgString = ''ctrl+c'' then Some (m, Quit, fs)
      else if msgString = ''q'' then
        (if keyBuffer m = '':'' then Some (m, Quit, fs) else Some (m, NoCmd, fs))
      else if msgString = '':'' \<or> msgString = ''/'' then
        (let m1 = m\<lparr>mode := ModeCommand, input := msgString, keyBuffer := ''''\<rparr> in
         if err m1 \<noteq> None then
           Some (m1\<lparr>err := None, status := showInt (len (items m1)) @ '' items''\<rparr>, NoCmd, fs)
         else Some (m1, NoCmd, fs))
      else if msgString = ''up'' \<or> msgString = ''k'' then
        Some ((if cursor m > 0 then m\<lparr>cursor := cursor m - 1\<rparr> else m)\<lparr>keyBuffer := ''''\<rparr>, NoCmd, fs)
      else if msgString = ''down'' \<or> msgString = ''j'' then
        Some ((if cursor m < len (items m) - 1 then m\<lparr>cursor := cursor m + 1\<rparr> else m)
                \<lparr>keyBuffer := ''''\<rparr>, NoCmd, fs)
      else if msgString = ''enter'' then
        (if input m \<noteq> '''' then
           executeCommand env sys (input m) (m\<lparr>input := '''', keyBuffer := ''''\<rparr>) fs
         else if len (items m) > 0 \<and> cursor m < len (items m) then
           (case index (items m) (cursor m) of
              None \<Rightarrow> None
            | Some item \<Rightarrow>
                Some (m\<lparr>viewContent := ItemToPrettyJSON env item, mode := ModeItemView,
                        keyBuffer := ''''\<rparr>, NoCmd, fs))
         else Some (m\<lparr>keyBuffer := ''''\<rparr>, NoCmd, fs))
      else if msgString = '' '' then
        (if len (items m) > 0 then
           (if map_of (selected m) (cursor m) = Some True then
              Some (m\<lparr>selected := AList.delete (cursor m) (selected m), keyBuffer := ''''\<rparr>, NoCmd, fs)
            else
              Some (m\<lparr>selected := AList.update (cursor m) True (selected m), keyBuffer := ''''\<rparr>,
                    NoCmd, fs))
         else Some (m\<lparr>keyBuffer := ''''\<rparr>, NoCmd, fs))
      else if msgString = ''e'' then
        (if len (items m) > 0 \<and> len (selected m) \<le> 1 then editCurrentItem env sys m fs
         else Some (m\<lparr>keyBuffer := ''''\<rparr>, NoCmd, fs))
      else if msgString = ''d'' then
        (if keyBuffer m = ''d'' then Some (m\<lparr>mode := ModeConfirmDelete, keyBuffer := ''''\<rparr>, NoCmd, fs)
         else Some (m\<lparr>keyBuffer := ''d''\<rparr>, NoCmd, fs))
      else if msgString = ''t'' then Some (m\<lparr>mode := ModeTableSelect, keyBuffer := ''''\<rparr>, NoCmd, fs)
      else if msgString = ''i'' \<or> msgString = ''a'' then putNewItem sys (m\<lparr>keyBuffer := ''''\<rparr>) fs
      else if msgString = ''?'' then Some (m\<lparr>mode := ModeHelp, keyBuffer := ''''\<rparr>, NoCmd, fs)
      else if msgString = ''esc'' then
        Some (m\<lparr>keyBuffer := '''', input := '''', mode := ModeNormal\<rparr>, NoCmd, fs)
      else if msgString = ''g'' then
        (if keyBuffer m = ''g'' then Some (m\<lparr>cursor := 0, keyBuffer := ''''\<rparr>, NoCmd, fs)
         else Some (m\<lparr>keyBuffer := ''g''\<rparr>, NoCmd, fs))
      else if msgString = ''G'' then
        Some (m\<lparr>cursor := max (len (items m) - 1) 0, keyBuffer := ''''\<rparr>, NoCmd, fs)
      else Some (m\<lparr>keyBuffer := ''''\<rparr>, NoCmd, fs))"

definition handleKeyPress :: "env \<Rightarrow> sys \<Rightarrow> KeyType \<Rightarrow> string \<Rightarrow> Model \<Rightarrow> files \<Rightarrow> step" where
  "handleKeyPress env sys msgType msgString m fs =
     (case mode m of
        ModeCommand \<Rightarrow> handleCommandMode env sys msgType msgString m fs
      | ModeTableSelect \<Rightarrow> handleTableSelectMode msgString m fs
      | ModeItemView \<Rightarrow> handleItemViewMode env sys msgString m fs
      | ModeConfirmDelete \<Rightarrow> handleConfirmDeleteMode msgString m fs
      | ModeErrorView \<Rightarrow>
          (if msgType = KeyEsc \<or> msgType = KeyEnter \<or> msgString = ''q'' then
             Some (m\<lparr>mode := ModeNormal, viewContent := ''''\<rparr>, NoCmd, fs)
           else Some (m, NoCmd, fs))
      | ModeHelp \<Rightarrow>
          (if msgType = KeyEsc \<or> msgString = ''q'' \<or> msgString = ''?'' then
             Some (m\<lparr>mode := ModeNormal, viewContent := ''''\<rparr>, NoCmd, fs)
           else Some (m, NoCmd, fs))
      | ModeNormal \<Rightarrow> handleNormalMode env sys msgString m fs)"

subsection \<open>Update (model.go)\<close>

definition Update :: "env \<Rightarrow> sys \<Rightarrow> Msg \<Rightarrow> Model \<Rightarrow> files \<Rightarrow> step" where
  "Update env sys msg m fs =
     (case msg of
        WindowSizeMsg w h \<Rightarrow> Some (m\<lparr>width := w, height := h, inputWidth := w - 4\<rparr>, NoCmd, fs)
      | tablesLoadedMsg ts e \<Rightarrow>
          (case e of
             Some e \<Rightarrow> Some (setError e m, NoCmd, fs)
           | None \<Rightarrow>
               (case ts of
                  [] \<Rightarrow> Some (m\<lparr>tables := ts, status := ''No tables found''\<rparr>, NoCmd, fs)
                | first # _ \<Rightarrow>
                    (let m1 = m\<lparr>tables := ts, currentTable := 0\<rparr>;
                         loaded = ''Loaded '' @ showInt (len ts) @ '' tables'';
                         m2 = (if requestedTable m1 \<noteq> '''' then
                                 (case findTable ts (requestedTable m1) 0 of
                                    Some i \<Rightarrow> m1\<lparr>currentTable := i, status := loaded\<rparr>
                                  | None \<Rightarrow>
                                      m1\<lparr>status := ''Table '' @ [CHR 0x27] @ requestedTable m1
                                             @ [CHR 0x27] @ '' not found, using '' @ Name first,
                                          preserveStatus := True\<rparr>)
                               else m1\<lparr>status := loaded\<rparr>)
                     in case index (tables m2) (currentTable m2) of
                          None \<Rightarrow> None
                        | Some table \<Rightarrow> Some (m2, LoadItems (Name table) '''', fs))))
      | itemsLoadedMsg its e noMatch \<Rightarrow>
          (case e of
             Some e \<Rightarrow> Some (setError e m, NoCmd, fs)
           | None \<Rightarrow>
               (let m1 = m\<lparr>items := its, cursor := 0, selected := []\<rparr> in
                if noMatch then Some (m1\<lparr>status := ''No matching item''\<rparr>, NoCmd, fs)
                else if preserveStatus m1 then Some (m1\<lparr>preserveStatus := False\<rparr>, NoCmd, fs)
                else Some (m1\<lparr>status := ''Loaded '' @ showInt (len (items m1)) @ '' items''\<rparr>,
                           NoCmd, fs)))
      | operationDoneMsg st e \<Rightarrow>
          (case e of
             Some e \<Rightarrow> Some (setError e m, NoCmd, fs)
           | None \<Rightarrow>
               (let m1 = m\<lparr>status := st, err := None\<rparr> in
                if len (tables m1) > 0 then
                  (case index (tables m1) (currentTable m1) of
                     None \<Rightarrow> None
                   | Some table \<Rightarrow> Some (m1, LoadItems (Name table) '''', fs))
                else Some (m1, NoCmd, fs)))
      | editorFinishedMsg content original e \<Rightarrow>
          (case e of
             Some e \<Rightarrow> Some (setError e m, NoCmd, fs)
           | None \<Rightarrow>
               (if content = original then Some (m\<lparr>status := ''No changes made''\<rparr>, NoCmd, fs)
                else saveEditedItem content m fs))
      | itemFetchedForEditMsg it e \<Rightarrow>
          (case e of
             Some e \<Rightarrow> Some (m\<lparr>status := ''Error: '' @ e\<rparr>, NoCmd, fs)
           | None \<Rightarrow>
               (case it of
                  None \<Rightarrow> Some (m\<lparr>status := ''Item not found''\<rparr>, NoCmd, fs)
                | Some item \<Rightarrow> editCurrentItem env sys (m\<lparr>items := [item], cursor := 0\<rparr>) fs))
      | KeyMsg msgType msgString \<Rightarrow> handleKeyPress env sys msgType msgString m fs
      | OtherMsg \<Rightarrow> Some (m, NoCmd, fs))"

text \<open>\<open>NewModel\<close>: the session the program starts with.\<close>

definition NewModel :: "string \<Rightarrow> Model" where
  "NewModel requested =
     \<lparr>tables = [], currentTable = 0, requestedTable = requested, items = [], cursor = 0,
      selected = [], width = 0, height = 0, mode = ModeNormal, input = '''', inputWidth = 50,
      keyBuffer = '''', status = ''Loading tables...'', err = None, viewContent = '''',
      editTmpFile = '''', editOrigContent = '''', preserveStatus = False, lastError = ''''\<rparr>"

subsection \<open>Notions used in the statements about the codec\<close>

text \<open>
  The test of \<open>processTypeHints\<close> for a type hint on a key, and the parts it cuts the key
  into: the name before the last \<open><\<close> and the hint between that \<open><\<close> and the final \<open>>\<close>.
\<close>

definition hasTypeHint :: "string \<Rightarrow> bool" where
  "hasTypeHint key = (LastIndex key CHR ''<'' \<noteq> -1 \<and> HasSuffix key ''>'')"

definition hintOf :: "string \<Rightarrow> string" where
  "hintOf key = TrimSuffix (drop (nat (LastIndex key CHR ''<'') + 1) key) ''>''"

definition cleanName :: "string \<Rightarrow> string" where
  "cleanName key = (if hasTypeHint key then take (nat (LastIndex key CHR ''<'')) key else key)"

text \<open>
  When decoding fails on a hint, in the words of the amended claim C3: a map fails
  when one of its keys carries a hint that fails on the value of the key; a hint fails
  on a value when it names no supported type, when it is \<open>BOOL\<close> and the value is neither
  a boolean nor a string, when it is \<open>L\<close> and the value is a string that is not read as a
  JSON array, and when it is \<open>M\<close> and the value is neither an object nor a string, or a
  string that is not read as a JSON object, or an object (given or read from the string)
  that fails in turn.
\<close>

definition supportedHints :: "string list" where
  "supportedHints = [''S'', ''N'', ''BOOL'', ''NULL'', ''L'', ''M'', ''SS'', ''NS'', ''B'', ''BS'']"

function (sequential)
  mapFails :: "env \<Rightarrow> (string \<times> jvalue) list \<Rightarrow> bool"
  and hintFails :: "env \<Rightarrow> string \<Rightarrow> jvalue \<Rightarrow> bool"
where
  "mapFails env [] = False"
| "mapFails env ((key, value) # rest) =
     ((hasTypeHint key \<and> hintFails env (hintOf key) value) \<or> mapFails env rest)"
| "hintFails env typeHint value =
     (let hint = ToUpper env typeHint in
      if hint \<notin> set supportedHints then True
      else if hint = ''BOOL'' then
        (case value of JBool b \<Rightarrow> False | JString s p \<Rightarrow> False | _ \<Rightarrow> True)
      else if hint = ''L'' then
        (case value of JString s p \<Rightarrow> unmarshalList p = None | _ \<Rightarrow> False)
      else if hint = ''M'' then
        (case value of
           JObject m \<Rightarrow> mapFails env m
         | JString s p \<Rightarrow>
             (case p of
                Some (JObject m) \<Rightarrow> mapFails env m
              | Some JNil \<Rightarrow> False
              | _ \<Rightarrow> True)
         | _ \<Rightarrow> True)
      else False)"
  by pat_completeness auto
termination
  by (relation "measure (\<lambda>x. case x of
        Inl (env, data) \<Rightarrow> 2 * size (JObject data)
      | Inr (env, typeHint, value) \<Rightarrow> 2 * size value + 1)") auto

declare hintFails.simps [simp del]

text \<open>
  The attribute values of the amended claim C1: strings, numbers that are JSON number
  literals which \<open>%v\<close> prints back as they are written, booleans, \<open>NULL\<close> (with the value
  \<open>true\<close> the SDK gives it), and lists and maps of these.
\<close>

fun plain :: "env \<Rightarrow> AttributeValue \<Rightarrow> bool" where
  "plain env (MemberS v) = True"
| "plain env (MemberN v) = (v \<noteq> [] \<and> validNumber env v \<and> sprintv env (AFloat v) = v)"
| "plain env (MemberBOOL v) = True"
| "plain env (MemberNULL v) = v"
| "plain env (MemberL v) = list_all (plain env) v"
| "plain env (MemberM v) = list_all (\<lambda>(k, x). plain env x) v"
| "plain env _ = False"

subsection \<open>Examples\<close>

text \<open>
  The answers of the libraries on the texts and values of the examples below; on
  anything else these stand-ins answer with a fixed value, on which no example depends.
  A string that is not JSON itself (\<open>maybe\<close>, \<open>bob\<close>) carries \<open>None\<close>, the string \<open>5\<close>
  carries the number it reads as.
\<close>

definition exampleTexts :: "(string \<times> jvalue) list" where
  \<open>exampleTexts =
     [(''{"x<ZZZ>": 1}'', JObject [(''x<ZZZ>'', JFloat ''1'')]),
      (''{"x<BOOL>": "maybe"}'', JObject [(''x<BOOL>'', JString ''maybe'' None)]),
      (''{"age<N>": "5"}'', JObject [(''age<N>'', JString ''5'' (Some (JFloat ''5'')))]),
      (''{"a": {"b<N>": "5"}}'',
         JObject [(''a'', JObject [(''b<N>'', JString ''5'' (Some (JFloat ''5'')))])]),
      (''{"tags":["a","b"]}'',
         JObject [(''tags'', JArray [JString ''a'' None, JString ''b'' None])]),
      (''{"bin":"aGk="}'', JObject [(''bin'', JString ''aGk='' None)]),
      (''{"age":5,"list":["x"],"map":{"k":"v"},"name":"bob","none":null,"ok":true}'',
         JObject [(''age'', JFloat ''5''),
                  (''list'', JArray [JString ''x'' None]),
                  (''map'', JObject [(''k'', JString ''v'' None)]),
                  (''name'', JString ''bob'' None),
                  (''none'', JNil),
                  (''ok'', JBool True)])]\<close>

definition exampleDocs :: "(doc \<times> string) list" where
  \<open>exampleDocs =
     [(DObject [(''tags'', DArray [DString ''a'', DString ''b''])], ''{"tags":["a","b"]}''),
      (DObject [(''bin'', DString ''aGk='')], ''{"bin":"aGk="}''),
      (DObject [(''age'', DNumber ''5''),
                (''list'', DArray [DString ''x'']),
                (''map'', DObject [(''k'', DString ''v'')]),
                (''name'', DString ''bob''),
                (''none'', DNull),
                (''ok'', DBool True)],
       ''{"age":5,"list":["x"],"map":{"k":"v"},"name":"bob","none":null,"ok":true}'')]\<close>

definition exampleEnv :: env where
  "exampleEnv =
     \<lparr>parseJSON = map_of exampleTexts,
      listError = (\<lambda>text. ''unexpected end of JSON input''),
      mapError = (\<lambda>text. ''unexpected end of JSON input''),
      marshalText = (\<lambda>d. case map_of exampleDocs d of Some text \<Rightarrow> text | None \<Rightarrow> ''''),
      marshalIndentText = (\<lambda>d. case map_of exampleDocs d of Some text \<Rightarrow> text | None \<Rightarrow> ''''),
      validNumber = (\<lambda>s. s = ''5''),
      marshalError = (\<lambda>v. ''json: invalid number literal''),
      floatJSON = (\<lambda>f. f),
      base64 = (\<lambda>b. if b = ''hi'' then ''aGk='' else ''''),
      sprintv = (\<lambda>v. if v = AFloat ''5'' then ''5'' else ''''),
      scansFloat = (\<lambda>s. s = ''5''),
      toUpperUnicode = (\<lambda>s. s),
      toLowerUnicode = (\<lambda>s. s),
      trimSpaceUnicode = (\<lambda>s. s),
      fieldsUnicode = (\<lambda>s. [s])\<rparr>"

definition exampleSys :: sys where
  "exampleSys =
     \<lparr>getenvEDITOR = '''',
      createTemp = Inr ''/tmp/dui-1.json'',
      writeError = None,
      inputUpdate = (\<lambda>v t s. v @ s)\<rparr>"

text \<open>The invariants of the session that the specification states.\<close>

definition cursorInRange :: "Model \<Rightarrow> bool" where
  "cursorInRange m =
     (if items m \<noteq> [] then 0 \<le> cursor m \<and> cursor m < len (items m) else cursor m = 0)"

definition selectionInRange :: "Model \<Rightarrow> bool" where
  "selectionInRange m = list_all (\<lambda>(i, b). 0 \<le> i \<and> i < len (items m)) (selected m)"

text \<open>A session with three records, the third one selected.\<close>

definition threeRecords :: Model where
  "threeRecords = (NewModel '''')\<lparr>items := [rec1, rec2, rec3], selected := [(2, True)]\<rparr>"

text \<open>A session in the middle of an edit: one table, the temporary file handed to the editor.\<close>

definition editing :: Model where
  "editing =
     (NewModel '''')
       \<lparr>tables := [\<lparr>Name = ''t'', PartitionKey = ''pk'', SortKey = '''',
                     GlobalIndexes = [], LocalIndexes = []\<rparr>],
        editTmpFile := ''/tmp/dui-1.json'', editOrigContent := ''{}''\<rparr>"

section \<open>Properties\<close>

subsection \<open>Pagination\<close>

lemma ListTables_loop_served:
  "served (listTablesCall db) s cur pages sfin \<Longrightarrow>
   ListTables_loop db acc cur s = Some (Inr (acc @ concat pages), sfin)"
proof (induction pages arbitrary: s cur acc)
  case Nil
  then show ?case by simp
next
  case (Cons page pages)
  show ?case
  proof (cases pages)
    case Nil
    with Cons.prems show ?thesis
      by (subst ListTables_loop.simps)
         (auto simp: listTablesCall_def split: prod.splits sum.splits)
  next
    case (Cons nxt rest)
    with Cons.prems Cons.IH show ?thesis
      by (subst ListTables_loop.simps)
         (auto simp: listTablesCall_def Let_def split: prod.splits sum.splits option.splits)
  qed
qed

lemma Scan_loop_served:
  "served (scanCall db req) s cur pages sfin \<Longrightarrow>
   Scan_loop db req acc cur s = Some (Inr (acc @ concat pages), sfin)"
proof (induction pages arbitrary: s cur acc)
  case Nil
  then show ?case by simp
next
  case (Cons page pages)
  show ?case
  proof (cases pages)
    case Nil
    with Cons.prems show ?thesis
      by (subst Scan_loop.simps)
         (auto simp: scanCall_def split: prod.splits sum.splits)
  next
    case (Cons nxt rest)
    with Cons.prems Cons.IH show ?thesis
      by (subst Scan_loop.simps)
         (auto simp: scanCall_def Let_def split: prod.splits sum.splits option.splits)
  qed
qed

lemma Query_loop_served:
  "served (queryCall db req) s cur pages sfin \<Longrightarrow>
   Query_loop db req acc cur s = Some (Inr (acc @ concat pages), sfin)"
proof (induction pages arbitrary: s cur acc)
  case Nil
  then show ?case by simp
next
  case (Cons page pages)
  show ?case
  proof (cases pages)
    case Nil
    with Cons.prems show ?thesis
      by (subst Query_loop.simps)
         (auto simp: queryCall_def split: prod.splits sum.splits)
  next
    case (Cons nxt rest)
    with Cons.prems Cons.IH show ?thesis
      by (subst Query_loop.simps)
         (auto simp: queryCall_def Let_def split: prod.splits sum.splits option.splits)
  qed
qed

lemma simulated_serves_scan:
  "served (scanCall simulated (scanRequest ''t'' '''')) [] None
     [[rec1, rec2], [rec3, rec4], [rec5, rec6]]
     [ScanCall None, ScanCall (Some rec2), ScanCall (Some rec4)]"
  by (simp add: scanCall_def scanRequest_def simulated_def threePages_def
        rec1_def rec2_def rec3_def rec4_def rec5_def rec6_def)

lemma simulated_serves_query:
  "served (queryCall simulated (queryRequest ''t'' '''' ''pk = :pk'' [('':pk'', MemberS ''a'')])) [] None
     [[rec1, rec2], [rec3, rec4], [rec5, rec6]]
     [QueryCall None, QueryCall (Some rec2), QueryCall (Some rec4)]"
  by (simp add: queryCall_def queryRequest_def simulated_def threePages_def
        rec1_def rec2_def rec3_def rec4_def rec5_def rec6_def)

lemma simulated_serves_names:
  "served (listTablesCall simulated) [] None
     [[''t1'', ''t2''], [''t3'', ''t4''], [''t5'', ''t6'']]
     [ListTablesCall None, ListTablesCall (Some ''t2''), ListTablesCall (Some ''t4'')]"
  by (simp add: listTablesCall_def simulated_def threeNamePages_def)

text \<open>
  Claim C8. Every listing, scanning and querying operation re-issues its call with the
  cursor of the previous response until a response carries none, and returns all pages
  as one list: whenever the backend serves the pages \<open>pages\<close> in this way (each page but
  the last with a cursor, which the next call brings back), \<open>ListTables\<close>, \<open>Scan\<close> and
  \<open>Query\<close> return, their result is the concatenation of all the pages, and the backend is
  left in the state in which the call for the last page left it: no call follows.
\<close>

theorem pagination_aggregates_all_pages:
  "(served (listTablesCall db) s1 None namePages f1 \<longrightarrow>
      ListTables db s1 = Some (Inr (concat namePages), f1)) \<and>
   (served (scanCall db (scanRequest tableName indexName)) s2 None scanPages f2 \<longrightarrow>
      Scan db tableName indexName s2 = Some (Inr (concat scanPages), f2)) \<and>
   (served (queryCall db (queryRequest tableName indexName keyCondition exprValues)) s3 None queryPages f3 \<longrightarrow>
      Query db tableName indexName keyCondition exprValues s3 = Some (Inr (concat queryPages), f3))"
  using ListTables_loop_served [of db s1 None namePages f1 "[]"]
    Scan_loop_served [of db "scanRequest tableName indexName" s2 None scanPages f2 "[]"]
    Query_loop_served [of db "queryRequest tableName indexName keyCondition exprValues" s3 None queryPages f3 "[]"]
  by (simp add: ListTables_def Scan_def Query_def)

text \<open>
  The simulated backend with three pages of two records: six records come back, after
  exactly three calls, the second and third with the cursor of the page before.
\<close>

theorem pagination_aggregates_all_pages_witness:
  "ListTables simulated [] =
     Some (Inr [''t1'', ''t2'', ''t3'', ''t4'', ''t5'', ''t6''],
           [ListTablesCall None, ListTablesCall (Some ''t2''), ListTablesCall (Some ''t4'')]) \<and>
   Scan simulated ''t'' '''' [] =
     Some (Inr [rec1, rec2, rec3, rec4, rec5, rec6],
           [ScanCall None, ScanCall (Some rec2), ScanCall (Some rec4)]) \<and>
   Query simulated ''t'' '''' ''pk = :pk'' [('':pk'', MemberS ''a'')] [] =
     Some (Inr [rec1, rec2, rec3, rec4, rec5, rec6],
           [QueryCall None, QueryCall (Some rec2), QueryCall (Some rec4)]) \<and>
   length [rec1, rec2, rec3, rec4, rec5, rec6] = 6"
  using pagination_aggregates_all_pages
    [where db = simulated and ?s1.0 = "[]" and ?s2.0 = "[]" and ?s3.0 = "[]"
       and namePages = "[[''t1'', ''t2''], [''t3'', ''t4''], [''t5'', ''t6'']]"
       and ?f1.0 = "[ListTablesCall None, ListTablesCall (Some ''t2''), ListTablesCall (Some ''t4'')]"
       and tableName = "''t''" and indexName = "''''"
       and scanPages = "[[rec1, rec2], [rec3, rec4], [rec5, rec6]]"
       and ?f2.0 = "[ScanCall None, ScanCall (Some rec2), ScanCall (Some rec4)]"
       and keyCondition = "''pk = :pk''" and exprValues = "[('':pk'', MemberS ''a'')]"
       and queryPages = "[[rec1, rec2], [rec3, rec4], [rec5, rec6]]"
       and ?f3.0 = "[QueryCall None, QueryCall (Some rec2), QueryCall (Some rec4)]"]
    simulated_serves_names simulated_serves_scan simulated_serves_query
  by simp

subsection \<open>The session\<close>

lemma setError_retains_and_truncates:
  "lastError (setError e m) = e \<and>
   (length e > 50 \<longrightarrow>
      status (setError e m) = take 47 e @ ''... (/err)'' \<and> viewContent (setError e m) = e \<and>
      mode (setError e m) = ModeErrorView) \<and>
   (length e \<le> 50 \<longrightarrow> status (setError e m) = e \<and> mode (setError e m) = mode m)"
  by (simp add: setError_def Let_def)

lemma error_results_call_setError:
  "Update env sys (tablesLoadedMsg ts (Some e)) m fs = Some (setError e m, NoCmd, fs)"
  "Update env sys (itemsLoadedMsg its (Some e) noMatch) m fs = Some (setError e m, NoCmd, fs)"
  "Update env sys (operationDoneMsg st (Some e)) m fs = Some (setError e m, NoCmd, fs)"
  "Update env sys (editorFinishedMsg content original (Some e)) m fs = Some (setError e m, NoCmd, fs)"
  by (simp_all add: Update_def)

text \<open>
  Claim C6 (every operation result with an error keeps the full message for recall, and a
  long one goes to the error view). The results tables-loaded, items-loaded,
  operation-done and editor-finished do so through \<open>setError\<close> (the two lemmas above).
  The result item-fetched-for-edit does not: whatever the length of its error, the
  text goes to the status line in full behind \<open>Error: \<close>, the last error and the mode
  stay as they were.
\<close>

theorem item_fetch_error_bypasses_setError:
  "Update env sys (itemFetchedForEditMsg it (Some e)) m fs
     = Some (m\<lparr>status := ''Error: '' @ e\<rparr>, NoCmd, fs) \<and>
   lastError (m\<lparr>status := ''Error: '' @ e\<rparr>) = lastError m \<and>
   mode (m\<lparr>status := ''Error: '' @ e\<rparr>) = mode m"
  by (simp add: Update_def)

text \<open>
  Claim C5 (the chord buffer is reset by every key that does not continue a chord). In
  the normal mode \<open>d\<close> arms the chord, \<open>q\<close> leaves the buffer as it is, and the next \<open>d\<close>
  opens the confirmation: the keys \<open>d q d\<close> do what \<open>d d\<close> does.
\<close>

theorem chord_survives_q:
  "Update env sys (KeyMsg t1 ''d'') (m\<lparr>mode := ModeNormal, keyBuffer := ''''\<rparr>) fs
     = Some (m\<lparr>mode := ModeNormal, keyBuffer := ''d''\<rparr>, NoCmd, fs) \<and>
   Update env sys (KeyMsg t2 ''q'') (m\<lparr>mode := ModeNormal, keyBuffer := ''d''\<rparr>) fs
     = Some (m\<lparr>mode := ModeNormal, keyBuffer := ''d''\<rparr>, NoCmd, fs) \<and>
   Update env sys (KeyMsg t3 ''d'') (m\<lparr>mode := ModeNormal, keyBuffer := ''d''\<rparr>) fs
     = Some (m\<lparr>mode := ModeConfirmDelete, keyBuffer := ''''\<rparr>, NoCmd, fs)"
  by (simp add: Update_def handleKeyPress_def handleNormalMode_def)

lemma chord_dd_opens_confirmation:
  "Update env sys (KeyMsg t1 ''d'') (m\<lparr>mode := ModeNormal, keyBuffer := ''d''\<rparr>) fs
     = Some (m\<lparr>mode := ModeConfirmDelete, keyBuffer := ''''\<rparr>, NoCmd, fs)"
  by (simp add: Update_def handleKeyPress_def handleNormalMode_def)

lemma item_fetched_keeps_selection:
  "map_option (\<lambda>(m', c, fs'). (items m', cursor m', selected m'))
     (Update env sys (itemFetchedForEditMsg (Some item) None) m fs) = Some ([item], 0, selected m)"
  by (simp add: Update_def editCurrentItem_def len_def index_def openEditor_def Let_def
      split: sum.splits option.splits)

lemma items_loaded_clears_selection:
  "Update env sys (itemsLoadedMsg its None noMatch) m fs = Some (m', c, fs') \<Longrightarrow>
   items m' = its \<and> cursor m' = 0 \<and> selected m' = []"
  by (auto simp: Update_def Let_def split: if_splits)

text \<open>
  Claim C9 (after every step the cursor and every selected position are within the
  records, the selection being cleared when the records are replaced). With three
  records and the third one selected, the result item-fetched-for-edit replaces the
  records by the one fetched record and keeps the selection: position 2 stays selected
  in a list of one record.
\<close>

theorem item_fetched_leaves_stale_selection:
  "cursorInRange threeRecords \<and> selectionInRange threeRecords \<and>
   (case Update exampleEnv exampleSys (itemFetchedForEditMsg (Some rec4) None) threeRecords Map.empty of
      None \<Rightarrow> False
    | Some (m', c, fs') \<Rightarrow>
        items m' = [rec4] \<and> cursor m' = 0 \<and> selected m' = [(2, True)] \<and> \<not> selectionInRange m')"
  by (simp add: Update_def editCurrentItem_def len_def index_def openEditor_def Let_def
      threeRecords_def NewModel_def cursorInRange_def selectionInRange_def exampleSys_def)

text \<open>
  Claim C10. When the editor has exited without an error and the content read back is
  the original content, the step changes the status text only and returns no command:
  nothing is saved, records, cursor and selection are as before. The second equation
  is the same step with the message the callback of the editor produces.
\<close>

theorem unchanged_edit_saves_nothing:
  "Update env sys (editorFinishedMsg content content None) m fs
     = Some (m\<lparr>status := ''No changes made''\<rparr>, NoCmd, fs) \<and>
   Update env sys (fst (editorCallback m content None (fs0(editTmpFile m \<mapsto> content)))) m fs
     = Some (m\<lparr>status := ''No changes made''\<rparr>, NoCmd, fs) \<and>
   items (m\<lparr>status := ''No changes made''\<rparr>) = items m \<and>
   cursor (m\<lparr>status := ''No changes made''\<rparr>) = cursor m \<and>
   selected (m\<lparr>status := ''No changes made''\<rparr>) = selected m"
  by (simp add: Update_def editorCallback_def)

theorem unchanged_edit_saves_nothing_witness:
  "Update exampleEnv exampleSys (editorFinishedMsg ''{}'' ''{}'' None) threeRecords Map.empty
     = Some (threeRecords\<lparr>status := ''No changes made''\<rparr>, NoCmd, Map.empty)"
  using unchanged_edit_saves_nothing [of exampleEnv exampleSys "''{}''" threeRecords Map.empty]
  by simp

subsection \<open>Commands\<close>

lemma openEditor_not_Quit: "openEditor sys c m fs \<noteq> Some (m', Quit, fs')"
  by (simp add: openEditor_def Let_def split: sum.splits option.splits)

lemma putNewItem_not_Quit: "putNewItem sys m fs \<noteq> Some (m', Quit, fs')"
  by (simp add: putNewItem_def openEditor_not_Quit split: option.splits)

lemma executeQuery_not_Quit: "executeQuery env args m fs \<noteq> Some (m', Quit, fs')"
  by (simp add: executeQuery_def Let_def split: option.splits list.splits sum.splits prod.splits)

lemma executeGet_not_Quit: "executeGet args m fs \<noteq> Some (m', Quit, fs')"
  by (simp add: executeGet_def split: option.splits)

lemma executeUpdate_not_Quit: "executeUpdate args m fs \<noteq> Some (m', Quit, fs')"
  by (simp add: executeUpdate_def split: option.splits)

lemma executeDelete_not_Quit: "executeDelete args m fs \<noteq> Some (m', Quit, fs')"
  by (simp add: executeDelete_def split: option.splits)

lemma quit_iff_special_text:
  "(\<exists>m' fs'. executeCommand env sys c m fs = Some (m', Quit, fs')) \<longleftrightarrow>
   TrimSpace env c \<in> {'':q'', '':quit'', ''/q'', [CHR 0x5C, CHR ''q'']}"
proof (cases "TrimSpace env c \<in> {'':q'', '':quit'', ''/q'', [CHR 0x5C, CHR ''q'']}")
  case True
  then show ?thesis by (auto simp: executeCommand_def)
next
  case False
  then have "executeCommand env sys c m fs \<noteq> Some (m', Quit, fs')" for m' fs'
    by (simp add: executeCommand_def Let_def putNewItem_not_Quit executeQuery_not_Quit
          executeGet_not_Quit executeUpdate_not_Quit executeDelete_not_Quit
        split: list.splits option.splits)
  with False show ?thesis by blast
qed

lemma help_texts:
  "TrimSpace env c \<in> {'':?'', '':help'', ''/?'', ''/help''} \<Longrightarrow>
   executeCommand env sys c m fs = Some (m\<lparr>mode := ModeHelp\<rparr>, NoCmd, fs)"
  by (auto simp: executeCommand_def)

lemma err_text:
  "TrimSpace env c = ''/err'' \<Longrightarrow>
   executeCommand env sys c m fs =
     (if lastError m \<noteq> '''' then Some (m\<lparr>viewContent := lastError m, mode := ModeErrorView\<rparr>, NoCmd, fs)
      else Some (m\<lparr>status := ''No errors''\<rparr>, NoCmd, fs))"
  by (simp add: executeCommand_def)

lemma slash_quit_unknown:
  "executeCommand env sys ''/quit'' m fs = Some (setError ''unknown command: /quit'' m, NoCmd, fs)"
  by (simp add: executeCommand_def TrimSpace_def isASCII_def asciiSpace_def Fields_def
        ToLower_def lowerChar_def Let_def)

lemma colon_err_unknown:
  "executeCommand env sys '':err'' m fs = Some (setError ''unknown command: :err'' m, NoCmd, fs)"
  by (simp add: executeCommand_def TrimSpace_def isASCII_def asciiSpace_def Fields_def
        ToLower_def lowerChar_def Let_def)

text \<open>
  Claim C7 as stated (each of quit, help and err works with either prefix) fails: \<open>/quit\<close>
  does not quit and \<open>:err\<close> does not show the last error; both end as unknown commands.
\<close>

theorem slash_quit_and_colon_err_are_unknown:
  "executeCommand exampleEnv exampleSys ''/quit'' (NewModel '''') Map.empty
     = Some (setError ''unknown command: /quit'' (NewModel ''''), NoCmd, Map.empty) \<and>
   executeCommand exampleEnv exampleSys '':err'' ((NewModel '''')\<lparr>lastError := ''boom''\<rparr>) Map.empty
     = Some (setError ''unknown command: :err'' ((NewModel '''')\<lparr>lastError := ''boom''\<rparr>), NoCmd, Map.empty)"
  by (simp add: slash_quit_unknown colon_err_unknown)

text \<open>
  Claim C7, amended. The special commands are matched on the whole trimmed text: a
  command quits exactly when its trimmed text is \<open>:q\<close>, \<open>:quit\<close>, \<open>/q\<close> or \<open>\q\<close>; the trimmed
  texts \<open>:?\<close>, \<open>:help\<close>, \<open>/?\<close> and \<open>/help\<close> open the help; the trimmed text \<open>/err\<close> shows the
  last error (or says that there is none); \<open>/quit\<close> and \<open>:err\<close> are unknown commands.
\<close>

theorem special_commands_exact_text:
  "((\<exists>m' fs'. executeCommand env sys c m fs = Some (m', Quit, fs')) \<longleftrightarrow>
      TrimSpace env c \<in> {'':q'', '':quit'', ''/q'', [CHR 0x5C, CHR ''q'']}) \<and>
   (TrimSpace env c \<in> {'':?'', '':help'', ''/?'', ''/help''} \<longrightarrow>
      executeCommand env sys c m fs = Some (m\<lparr>mode := ModeHelp\<rparr>, NoCmd, fs)) \<and>
   (TrimSpace env c = ''/err'' \<longrightarrow>
      executeCommand env sys c m fs =
        (if lastError m \<noteq> ''''
         then Some (m\<lparr>viewContent := lastError m, mode := ModeErrorView\<rparr>, NoCmd, fs)
         else Some (m\<lparr>status := ''No errors''\<rparr>, NoCmd, fs))) \<and>
   executeCommand env sys ''/quit'' m fs = Some (setError ''unknown command: /quit'' m, NoCmd, fs) \<and>
   executeCommand env sys '':err'' m fs = Some (setError ''unknown command: :err'' m, NoCmd, fs)"
  using quit_iff_special_text [of env sys c m fs] help_texts [of env c sys m fs]
    err_text [of env c sys m fs] slash_quit_unknown [of env sys m fs]
    colon_err_unknown [of env sys m fs]
  by blast

lemma trim_examples:
  "TrimSpace exampleEnv '' :help '' = '':help''"
  "TrimSpace exampleEnv ''/err'' = ''/err''"
  "TrimSpace exampleEnv '':quit'' = '':quit''"
  by (simp_all add: TrimSpace_def isASCII_def asciiSpace_def)

theorem special_commands_exact_text_witness:
  "(\<exists>m' fs'. executeCommand exampleEnv exampleSys '':quit'' (NewModel '''') Map.empty
       = Some (m', Quit, fs')) \<and>
   executeCommand exampleEnv exampleSys '' :help '' (NewModel '''') Map.empty
     = Some ((NewModel '''')\<lparr>mode := ModeHelp\<rparr>, NoCmd, Map.empty) \<and>
   executeCommand exampleEnv exampleSys ''/err'' ((NewModel '''')\<lparr>lastError := ''boom''\<rparr>) Map.empty
     = Some ((NewModel '''')\<lparr>lastError := ''boom'', viewContent := ''boom'', mode := ModeErrorView\<rparr>,
             NoCmd, Map.empty)"
  using special_commands_exact_text [of exampleEnv exampleSys "'':quit''" "NewModel ''''" Map.empty]
    special_commands_exact_text [of exampleEnv exampleSys "'' :help ''" "NewModel ''''" Map.empty]
    special_commands_exact_text
      [of exampleEnv exampleSys "''/err''" "(NewModel '''')\<lparr>lastError := ''boom''\<rparr>" Map.empty]
    trim_examples
  by (simp add: NewModel_def)

subsection \<open>The temporary file of an edit\<close>

lemma editorCallback_removes_file:
  "snd (editorCallback m orig e fs) (editTmpFile m) = None"
  by (simp add: editorCallback_def split: option.splits)

lemma runSaveItem_parse_error:
  "JSONToItem env content = Inl er \<Longrightarrow>
   runSaveItem env db t content s = (operationDoneMsg '''' (Some (errorText env er)), s)"
  by (simp add: runSaveItem_def)

lemma example_not_JSON:
  "JSONToItem exampleEnv ''{'' = Inl (InvalidJSON ''unexpected end of JSON input'')"
  by (simp add: JSONToItem_def exampleEnv_def exampleTexts_def)

text \<open>
  Claim C4 as stated (the temporary file is not deleted until the edited content has
  been parsed) fails. The editor has left the text \<open>{\<close> in the file: the callback reads
  it and removes the file; the step that follows only then issues the save, whose
  parse fails. The file is gone, and the session holds the original content only.
\<close>

theorem temp_file_removed_before_parse:
  "fst (editorCallback editing ''{}'' None [''/tmp/dui-1.json'' \<mapsto> ''{''])
     = editorFinishedMsg ''{'' ''{}'' None \<and>
   snd (editorCallback editing ''{}'' None [''/tmp/dui-1.json'' \<mapsto> ''{'']) ''/tmp/dui-1.json'' = None \<and>
   Update exampleEnv exampleSys (editorFinishedMsg ''{'' ''{}'' None) editing Map.empty
     = Some (editing, SaveItem ''t'' ''{'', Map.empty) \<and>
   runSaveItem exampleEnv simulated ''t'' ''{'' []
     = (operationDoneMsg '''' (Some ''invalid JSON: unexpected end of JSON input''), []) \<and>
   editOrigContent editing = ''{}''"
  by (simp add: editorCallback_def editing_def NewModel_def Update_def saveEditedItem_def
        len_def index_def runSaveItem_def example_not_JSON)

text \<open>
  Claim C4, amended. The callback of the editor removes the temporary file on every
  path (the editor failed, the file could not be read, the file was read), before the
  content is parsed. When the parse of the edited content then fails, the save ends
  with an operation-done message that carries the error text, nothing is put to the
  backend (its state is as before), and the step on that message records the error
  through \<open>setError\<close>.
\<close>

theorem temp_file_removed_on_every_path:
  "snd (editorCallback m orig e fs) (editTmpFile m) = None \<and>
   (JSONToItem env content = Inl er \<longrightarrow>
      runSaveItem env db t content s = (operationDoneMsg '''' (Some (errorText env er)), s) \<and>
      Update env sys (operationDoneMsg '''' (Some (errorText env er))) m' fs'
        = Some (setError (errorText env er) m', NoCmd, fs'))"
  using editorCallback_removes_file [of m orig e fs] runSaveItem_parse_error [of env content er db t s]
  by (simp add: Update_def)

theorem temp_file_removed_on_every_path_witness:
  "snd (editorCallback editing ''{}'' None [''/tmp/dui-1.json'' \<mapsto> ''{'']) (editTmpFile editing) = None \<and>
   JSONToItem exampleEnv ''{'' = Inl (InvalidJSON ''unexpected end of JSON input'') \<and>
   runSaveItem exampleEnv simulated ''t'' ''{'' []
     = (operationDoneMsg '''' (Some ''invalid JSON: unexpected end of JSON input''), []) \<and>
   Update exampleEnv exampleSys
       (operationDoneMsg '''' (Some ''invalid JSON: unexpected end of JSON input'')) editing Map.empty
     = Some (setError ''invalid JSON: unexpected end of JSON input'' editing, NoCmd, Map.empty)"
  using temp_file_removed_on_every_path
    [of editing "''{}''" None "[''/tmp/dui-1.json'' \<mapsto> ''{'']" exampleEnv "''{''"
        "InvalidJSON ''unexpected end of JSON input''" simulated "''t''" "[]" exampleSys editing Map.empty]
    example_not_JSON
  by simp

subsection \<open>Type hints\<close>

lemma convert_M_object:
  "ToUpper env hint = ''M'' \<Longrightarrow>
   convertValueWithTypeHint env (JObject m) hint =
     (case processTypeHints_loop env m [] of Inl e \<Rightarrow> Inl e | Inr r \<Rightarrow> Inr (AMap r))"
  by (simp add: convertValueWithTypeHint.simps)

lemma convert_M_string:
  "ToUpper env hint = ''M'' \<Longrightarrow>
   convertValueWithTypeHint env (JString s (Some (JObject m))) hint =
     (case processTypeHints_loop env m [] of Inl e \<Rightarrow> Inl e | Inr r \<Rightarrow> Inr (AMap r))"
  by (simp add: convertValueWithTypeHint.simps)

lemma hintFails_M_object:
  "ToUpper env hint = ''M'' \<Longrightarrow> hintFails env hint (JObject m) = mapFails env m"
  by (simp add: hintFails.simps supportedHints_def)

lemma hintFails_M_string:
  "ToUpper env hint = ''M'' \<Longrightarrow> hintFails env hint (JString s (Some (JObject m))) = mapFails env m"
  by (simp add: hintFails.simps supportedHints_def)

lemma convert_fails_other:
  "ToUpper env hint \<noteq> ''M'' \<or>
     (\<forall>m. value \<noteq> JObject m \<and> (\<forall>s. value \<noteq> JString s (Some (JObject m)))) \<Longrightarrow>
   (\<exists>e. convertValueWithTypeHint env value hint = Inl e) = hintFails env hint value"
  apply (simp add: convertValueWithTypeHint.simps hintFails.simps supportedHints_def Let_def)
  apply (cases "value")
       apply (auto split: option.splits jvalue.splits)
  done

lemma loop_step:
  "processTypeHints_loop env ((key, value) # rest) acc =
     (if hasTypeHint key then
        (case convertValueWithTypeHint env value (hintOf key) of
           Inl e \<Rightarrow> Inl (FailedToConvert (cleanName key) (hintOf key) e)
         | Inr cv \<Rightarrow> processTypeHints_loop env rest (AList.update (cleanName key) cv acc))
      else processTypeHints_loop env rest (AList.update key (asAny value) acc))"
  by (auto simp: hasTypeHint_def hintOf_def cleanName_def Let_def split: sum.splits)

lemma loop_fails_iff:
  "(\<exists>e. processTypeHints_loop env data acc = Inl e) = mapFails env data"
proof (induction "size (JObject data)" arbitrary: data acc rule: less_induct)
  case less
  show ?case
  proof (cases data)
    case Nil
    then show ?thesis by simp
  next
    case (Cons kv rest)
    obtain key val where kv: "kv = (key, val)" by (cases kv)
    have rest: "(\<exists>e. processTypeHints_loop env rest acc' = Inl e) = mapFails env rest" for acc'
      using less [of rest acc'] Cons by simp
    have conv: "(\<exists>e. convertValueWithTypeHint env val h = Inl e) = hintFails env h val" for h
    proof (cases "ToUpper env h = ''M''")
      case False
      then show ?thesis by (simp add: convert_fails_other)
    next
      case M: True
      show ?thesis
      proof (cases "\<exists>m. val = JObject m \<or> (\<exists>s. val = JString s (Some (JObject m)))")
        case False
        then show ?thesis by (simp add: convert_fails_other)
      next
        case True
        then obtain m where m: "val = JObject m \<or> (\<exists>s. val = JString s (Some (JObject m)))"
          by blast
        then have "size (JObject m) < size (JObject data)"
          using Cons kv by auto
        then have "(\<exists>e. processTypeHints_loop env m [] = Inl e) = mapFails env m"
          using less [of m "[]"] by simp
        with m M show ?thesis
          by (auto simp: convert_M_object convert_M_string hintFails_M_object hintFails_M_string
              split: sum.splits)
      qed
    qed
    show ?thesis
      unfolding Cons kv loop_step
      using rest conv [of "hintOf key"]
      by (cases "convertValueWithTypeHint env val (hintOf key)") auto
  qed
qed

lemma loop_error_shape:
  "processTypeHints_loop env data acc = Inl e \<Longrightarrow> \<exists>k h e'. e = FailedToConvert k h e'"
proof (induction data arbitrary: acc)
  case Nil
  then show ?case by simp
next
  case (Cons kv data)
  obtain key val where kv: "kv = (key, val)" by (cases kv)
  from Cons.prems Cons.IH show ?case
    unfolding kv loop_step
    by (auto split: if_splits sum.splits)
qed

lemma JSONToItem_fails_iff:
  "(\<exists>k h e. JSONToItem env jsonText = Inl (FailedToConvert k h e)) \<longleftrightarrow>
   (\<exists>data. unmarshalMap (parseJSON env jsonText) = Some data \<and> mapFails env data)"
proof (cases "unmarshalMap (parseJSON env jsonText)")
  case None
  then show ?thesis by (simp add: JSONToItem_def)
next
  case (Some data)
  show ?thesis
  proof (cases "processTypeHints_loop env data []")
    case (Inl e)
    with loop_error_shape [OF Inl] loop_fails_iff [of env data "[]"] Some show ?thesis
      by (auto simp: JSONToItem_def processTypeHints_def)
  next
    case (Inr r)
    with loop_fails_iff [of env data "[]"] Some show ?thesis
      by (auto simp: JSONToItem_def processTypeHints_def)
  qed
qed

lemma unknown_hint_ZZZ:
  "unmarshalMap (parseJSON env jsonText) = Some [(''x<ZZZ>'', JFloat ''1'')] \<Longrightarrow>
   JSONToItem env jsonText = Inl (FailedToConvert ''x'' ''ZZZ'' (UnknownTypeHint ''ZZZ''))"
  by (simp add: JSONToItem_def processTypeHints_def HasSuffix_def TrimSuffix_def Let_def
        convertValueWithTypeHint.simps ToUpper_def isASCII_def upperChar_def)

lemma BOOL_over_string:
  "convertValueWithTypeHint env (JString s p) ''BOOL'' = Inr (ABool (ToLower env s = ''true''))"
  by (simp add: convertValueWithTypeHint.simps ToUpper_def isASCII_def upperChar_def)

lemma BOOL_over_string_never_fails: "\<not> hintFails env ''BOOL'' (JString s p)"
  by (simp add: hintFails.simps supportedHints_def ToUpper_def isASCII_def upperChar_def)

lemma example_parses:
  \<open>parseJSON exampleEnv ''{"x<ZZZ>": 1}'' = Some (JObject [(''x<ZZZ>'', JFloat ''1'')])\<close>
  \<open>parseJSON exampleEnv ''{"x<BOOL>": "maybe"}'' = Some (JObject [(''x<BOOL>'', JString ''maybe'' None)])\<close>
  \<open>parseJSON exampleEnv ''{"age<N>": "5"}'' = Some (JObject [(''age<N>'', JString ''5'' (Some (JFloat ''5'')))])\<close>
  \<open>parseJSON exampleEnv ''{"a": {"b<N>": "5"}}''
     = Some (JObject [(''a'', JObject [(''b<N>'', JString ''5'' (Some (JFloat ''5'')))])])\<close>
  by (simp_all add: exampleEnv_def exampleTexts_def)

text \<open>
  Claim C3 as stated fails in its last part: a \<open>BOOL\<close> hint over a string that is neither
  \<open>true\<close> nor \<open>false\<close> does not fail, it gives the boolean \<open>false\<close>.
\<close>

theorem BOOL_hint_over_maybe_succeeds:
  \<open>JSONToItem exampleEnv ''{"x<BOOL>": "maybe"}'' = Inr [(''x'', MemberBOOL False)]\<close>
  by (simp add: JSONToItem_def example_parses processTypeHints_def HasSuffix_def TrimSuffix_def
        Let_def BOOL_over_string ToLower_def isASCII_def lowerChar_def)

text \<open>
  Claim C3, amended. Decoding fails with a type-conversion error exactly when the
  object read from the text fails on a hint in the sense of \<open>mapFails\<close>: a key (of the
  object, or of an object reached through \<open>M\<close> hints) carries a hint that names no
  supported type, or \<open>BOOL\<close> over a value that is neither a boolean nor a string, or \<open>L\<close>
  over a string that does not read as a JSON array, or \<open>M\<close> over a value that is neither
  an object nor a string that reads as one. Decoding \<open>{"x<ZZZ>": 1}\<close> fails with an error
  whose text names \<open>ZZZ\<close>. A \<open>BOOL\<close> hint over a string never fails: the value is \<open>true\<close>
  when the string is \<open>true\<close> in any case of letters, and \<open>false\<close> for every other string.
\<close>

theorem decoding_fails_iff_hint_fails:
  "((\<exists>k h e. JSONToItem env jsonText = Inl (FailedToConvert k h e)) \<longleftrightarrow>
      (\<exists>data. unmarshalMap (parseJSON env jsonText) = Some data \<and> mapFails env data)) \<and>
   (unmarshalMap (parseJSON env jsonText) = Some [(''x<ZZZ>'', JFloat ''1'')] \<longrightarrow>
      JSONToItem env jsonText = Inl (FailedToConvert ''x'' ''ZZZ'' (UnknownTypeHint ''ZZZ'')) \<and>
      errorText env (FailedToConvert ''x'' ''ZZZ'' (UnknownTypeHint ''ZZZ''))
        = ''failed to convert x with type ZZZ: unknown type hint: ZZZ'') \<and>
   convertValueWithTypeHint env (JString s p) ''BOOL'' = Inr (ABool (ToLower env s = ''true'')) \<and>
   \<not> hintFails env ''BOOL'' (JString s p)"
  using JSONToItem_fails_iff [of env jsonText] unknown_hint_ZZZ [of env jsonText]
    BOOL_over_string [of env s p] BOOL_over_string_never_fails [of env s p]
  by simp

lemma example_ZZZ_fails: "mapFails exampleEnv [(''x<ZZZ>'', JFloat ''1'')]"
  by (simp add: hasTypeHint_def hintOf_def HasSuffix_def TrimSuffix_def hintFails.simps
        supportedHints_def ToUpper_def isASCII_def upperChar_def)

theorem decoding_fails_iff_hint_fails_witness:
  \<open>JSONToItem exampleEnv ''{"x<ZZZ>": 1}'' = Inl (FailedToConvert ''x'' ''ZZZ'' (UnknownTypeHint ''ZZZ'')) \<and>
   mapFails exampleEnv [(''x<ZZZ>'', JFloat ''1'')] \<and>
   errorText exampleEnv (FailedToConvert ''x'' ''ZZZ'' (UnknownTypeHint ''ZZZ''))
     = ''failed to convert x with type ZZZ: unknown type hint: ZZZ''\<close>
  using decoding_fails_iff_hint_fails [of exampleEnv \<open>''{"x<ZZZ>": 1}''\<close> "''maybe''" None]
    example_ZZZ_fails
  by (simp add: example_parses)

subsection \<open>Attribute names after decoding\<close>

lemma LastIndex_lower: "- 1 \<le> LastIndex s c"
proof (induction s)
  case Nil
  then show ?case by simp
next
  case (Cons x s)
  then show ?case by (simp add: Let_def)
qed

lemma LastIndex_absent: "(LastIndex s c = - 1) = (c \<notin> set s)"
proof (induction s)
  case Nil
  then show ?case by simp
next
  case (Cons x s)
  have "- 1 \<le> LastIndex s c" by (rule LastIndex_lower)
  with Cons show ?case by (auto simp: Let_def)
qed

lemma LastIndex_present:
  "c \<in> set s \<Longrightarrow>
   nat (LastIndex s c) < length s \<and> s ! nat (LastIndex s c) = c \<and> 0 \<le> LastIndex s c"
proof (induction s)
  case Nil
  then show ?case by simp
next
  case (Cons x s)
  show ?case
  proof (cases "c \<in> set s")
    case True
    with Cons.IH have ih: "nat (LastIndex s c) < length s" "s ! nat (LastIndex s c) = c"
      "0 \<le> LastIndex s c" by simp_all
    then have "LastIndex (x # s) c = LastIndex s c + 1"
      by (simp add: Let_def)
    with ih show ?thesis by (simp add: nat_add_distrib)
  next
    case False
    then have "LastIndex s c = - 1" by (simp add: LastIndex_absent)
    with Cons.prems False show ?thesis by (simp add: Let_def)
  qed
qed

lemma count_split:
  "i < length xs \<Longrightarrow>
   length (filter P xs) = length (filter P (take i xs)) + length (filter P (xs ! i # drop (Suc i) xs))"
proof -
  assume "i < length xs"
  then have "take i xs @ xs ! i # drop (Suc i) xs = xs"
    by (simp add: id_take_nth_drop [symmetric])
  then have "length (filter P (take i xs @ xs ! i # drop (Suc i) xs)) = length (filter P xs)"
    by (rule arg_cong)
  then show ?thesis by (simp del: filter.simps)
qed

lemma two_hints_two_brackets:
  assumes "hasTypeHint key" and "hasTypeHint (cleanName key)"
  shows "2 \<le> length (filter (\<lambda>c. c = CHR ''<'') key)"
proof -
  let ?i = "nat (LastIndex key CHR ''<'')"
  let ?P = "\<lambda>c. c = CHR ''<''"
  from assms(1) have mem: "CHR ''<'' \<in> set key"
    by (simp add: hasTypeHint_def LastIndex_absent)
  from LastIndex_present [OF mem] have i: "?i < length key" "key ! ?i = CHR ''<''" by simp_all
  from assms have "CHR ''<'' \<in> set (take ?i key)"
    by (simp add: hasTypeHint_def cleanName_def LastIndex_absent)
  then have "filter ?P (take ?i key) \<noteq> []"
    by (simp add: filter_empty_conv)
  then have one: "1 \<le> length (filter ?P (take ?i key))"
    by (cases "filter ?P (take ?i key)") simp_all
  have "1 \<le> length (filter ?P (key ! ?i # drop (Suc ?i) key))"
    using i(2) by simp
  with one count_split [OF i(1), of ?P] show ?thesis by linarith
qed

lemma loop_keys:
  "processTypeHints_loop env data acc = Inr result \<Longrightarrow>
   fst ` set result = fst ` set acc \<union> cleanName ` fst ` set data"
proof (induction data arbitrary: acc)
  case Nil
  then show ?case by simp
next
  case (Cons kv data)
  obtain key val where kv: "kv = (key, val)" by (cases kv)
  show ?case
  proof (cases "hasTypeHint key")
    case True
    show ?thesis
    proof (cases "convertValueWithTypeHint env val (hintOf key)")
      case (Inl e)
      with Cons.prems True show ?thesis
        unfolding kv loop_step by simp
    next
      case (Inr cv)
      with Cons.prems True have
        "processTypeHints_loop env data (AList.update (cleanName key) cv acc) = Inr result"
        unfolding kv loop_step by simp
      from Cons.IH [OF this] show ?thesis
        unfolding kv by (simp add: dom_update insert_commute)
    qed
  next
    case False
    with Cons.prems have
      "processTypeHints_loop env data (AList.update key (asAny val) acc) = Inr result"
      unfolding kv loop_step by simp
    from Cons.IH [OF this] False show ?thesis
      unfolding kv by (simp add: dom_update cleanName_def)
  qed
qed

lemma interfaceToAttributeValue_keys:
  "map fst (interfaceToAttributeValue env data) = map fst data"
  by (induction data) auto

lemma JSONToItem_keys:
  assumes a: "JSONToItem env jsonText = Inr item"
  shows "\<exists>data. unmarshalMap (parseJSON env jsonText) = Some data \<and>
          fst ` set item = cleanName ` fst ` set data"
proof (cases "unmarshalMap (parseJSON env jsonText)")
  case None
  with a show ?thesis by (simp add: JSONToItem_def)
next
  case (Some data)
  show ?thesis
  proof (cases "processTypeHints_loop env data []")
    case (Inl e)
    with a Some show ?thesis by (simp add: JSONToItem_def processTypeHints_def)
  next
    case (Inr pd)
    with a Some have item: "item = interfaceToAttributeValue env pd"
      by (simp add: JSONToItem_def processTypeHints_def)
    have "fst ` set item = set (map fst (interfaceToAttributeValue env pd))"
      unfolding item by simp
    also have "\<dots> = fst ` set pd" by (simp add: interfaceToAttributeValue_keys)
    also have "\<dots> = cleanName ` fst ` set data" using loop_keys [OF Inr] by simp
    finally show ?thesis using Some by blast
  qed
qed

text \<open>
  Claim C2 as stated (no attribute name anywhere in the decoded record keeps a type
  hint, nested maps without hint included) fails: the name \<open>b<N>\<close> inside the map under
  the key \<open>a\<close>, which carries no hint, is kept with its suffix.
\<close>

theorem nested_name_keeps_hint:
  \<open>JSONToItem exampleEnv ''{"a": {"b<N>": "5"}}'' = Inr [(''a'', MemberM [(''b<N>'', MemberS ''5'')])] \<and>
   hasTypeHint ''b<N>''\<close>
  by (simp add: JSONToItem_def example_parses processTypeHints_def hasTypeHint_def HasSuffix_def)

text \<open>
  Claim C2, amended. Whenever decoding succeeds, the attribute names of the record are
  exactly the keys of the object read from the text, each with its last \<open><TYPE>\<close> suffix
  removed if it ends in one; the same holds for every map that \<open>processTypeHints\<close>
  builds, the maps of \<open>M\<close> hints included. A name of the result that still ends in a
  suffix comes from a key with two \<open><\<close> or more (\<open>a<b><N>\<close> becomes \<open>a<b>\<close>). (The names inside
  a map value without a hint are not looked at, as the counterexample shows.)
\<close>

theorem hints_removed_once_per_key:
  "(processTypeHints env data = Inr result \<longrightarrow> fst ` set result = cleanName ` fst ` set data) \<and>
   (JSONToItem env jsonText = Inr item \<longrightarrow>
      (\<exists>object. unmarshalMap (parseJSON env jsonText) = Some object \<and>
                fst ` set item = cleanName ` fst ` set object)) \<and>
   (hasTypeHint key \<and> hasTypeHint (cleanName key) \<longrightarrow>
      2 \<le> length (filter (\<lambda>c. c = CHR ''<'') key))"
  using loop_keys [of env data "[]" result] JSONToItem_keys [of env jsonText item]
    two_hints_two_brackets [of key]
  by (simp add: processTypeHints_def)

lemma example_age: \<open>JSONToItem exampleEnv ''{"age<N>": "5"}'' = Inr [(''age'', MemberN ''5'')]\<close>
  by (simp add: JSONToItem_def example_parses processTypeHints_def HasSuffix_def TrimSuffix_def
        Let_def convertValueWithTypeHint.simps ToUpper_def isASCII_def upperChar_def)

theorem hints_removed_once_per_key_witness:
  \<open>JSONToItem exampleEnv ''{"age<N>": "5"}'' = Inr [(''age'', MemberN ''5'')] \<and>
   cleanName ''age<N>'' = ''age'' \<and> \<not> hasTypeHint ''age'' \<and>
   hasTypeHint ''a<b><N>'' \<and> cleanName ''a<b><N>'' = ''a<b>'' \<and> hasTypeHint ''a<b>'' \<and>
   2 \<le> length (filter (\<lambda>c. c = CHR ''<'') ''a<b><N>'') \<and>
   fst ` set [(''age'', MemberN ''5'')] = cleanName ` fst ` set [(''age<N>'', JString ''5'' (Some (JFloat ''5'')))]\<close>
  using hints_removed_once_per_key
    [of exampleEnv "[(''age<N>'', JString ''5'' (Some (JFloat ''5'')))]" "[(''age'', ANumber ''5'')]"
        \<open>''{"age<N>": "5"}''\<close> "[(''age'', MemberN ''5'')]" "''a<b><N>''"]
    example_age
  by (simp add: hasTypeHint_def cleanName_def HasSuffix_def example_parses)

end
